theory Spec2Isabelle
  imports Main
begin

section \<open>JavaScript values\<close>

text \<open>
  Values of JavaScript's dynamic type, as far as the client and the tool handlers handle
  them untyped: the parsed error body (\<^verbatim>\<open>any\<close>), the objects handed to
  \<^verbatim>\<open>JSON.stringify\<close> as request bodies, and the style records a caller passes
  through (\<^verbatim>\<open>Record<string, unknown>\<close>). Numbers are integers: document indices,
  counts and sizes in points; fractional and non-finite numbers are outside this model.
  \<open>JObj\<close> lists the own properties of an object in insertion order.
\<close>

datatype jsval =
    JUndefined
  | JNull
  | JBool bool
  | JNum int
  | JStr string
  | JArr "jsval list"
  | JObj "(string \<times> jsval) list"

text \<open>The result of a numeric conversion that may fail: \<^verbatim>\<open>NaN\<close> or a number.\<close>

datatype jsnum = NaN | Num int

text \<open>JavaScript's ToBoolean, as used by \<^verbatim>\<open>!x\<close>, \<^verbatim>\<open>x ? a : b\<close> and \<^verbatim>\<open>x || y\<close>.\<close>

fun truthy :: "jsval \<Rightarrow> bool" where
  "truthy JUndefined = False"
| "truthy JNull = False"
| "truthy (JBool b) = b"
| "truthy (JNum n) = (n \<noteq> 0)"
| "truthy (JStr s) = (s \<noteq> [])"
| "truthy (JArr xs) = True"
| "truthy (JObj kvs) = True"

text \<open>
  Reading the property \<open>k\<close> of a value that is neither \<^verbatim>\<open>undefined\<close> nor
  \<^verbatim>\<open>null\<close>. The keys read below (\<^verbatim>\<open>error\<close>, \<^verbatim>\<open>message\<close>) are own
  properties of objects only; on a primitive or an array the read gives \<^verbatim>\<open>undefined\<close>.
\<close>

fun js_get :: "jsval \<Rightarrow> string \<Rightarrow> jsval" where
  "js_get (JObj kvs) k = (case map_of kvs k of None \<Rightarrow> JUndefined | Some v \<Rightarrow> v)"
| "js_get v k = JUndefined"

definition nullish :: "jsval \<Rightarrow> bool" where
  "nullish v = (v = JUndefined \<or> v = JNull)"

subsection \<open>Strings of digits\<close>

definition is_white_space :: "char \<Rightarrow> bool" where
  \<comment> \<open>the white space and line terminators of ECMAScript that fit in one byte\<close>
  "is_white_space c = ((of_char c :: nat) \<in> {9, 10, 11, 12, 13, 32, 160})"

definition is_digit :: "char \<Rightarrow> bool" where
  "is_digit c = (48 \<le> (of_char c :: nat) \<and> (of_char c :: nat) \<le> 57)"

definition digit_value :: "char \<Rightarrow> int" where
  "digit_value c = int (of_char c) - 48"

fun digits_value :: "int \<Rightarrow> string \<Rightarrow> int" where
  "digits_value acc [] = acc"
| "digits_value acc (c # cs) = digits_value (acc * 10 + digit_value c) cs"

text \<open>
  \<^verbatim>\<open>parseInt(s, 10)\<close>: leading white space is skipped, one sign is read, then the
  longest run of decimal digits; whatever follows is ignored. With no digit the result is
  \<^verbatim>\<open>NaN\<close>. (Beyond 2^53 JavaScript rounds to a double; the model keeps the integer.)
\<close>

definition parseInt :: "string \<Rightarrow> jsnum" where
  "parseInt s =
     (let t = dropWhile is_white_space s;
          neg = (t \<noteq> [] \<and> hd t = CHR ''-'');
          u = (if t \<noteq> [] \<and> (hd t = CHR ''-'' \<or> hd t = CHR ''+'') then tl t else t);
          ds = takeWhile is_digit u
      in if ds = [] then NaN
         else Num ((if neg then - 1 else 1) * digits_value 0 ds))"

text \<open>Number to string for integers, as a template literal renders them.\<close>

definition digit_char :: "nat \<Rightarrow> char" where
  "digit_char n = ''0123456789'' ! n"

fun show_nat :: "nat \<Rightarrow> string" where
  "show_nat n = (if n < 10 then [digit_char n] else show_nat (n div 10) @ [digit_char (n mod 10)])"

definition show_int :: "int \<Rightarrow> string" where
  "show_int i = (if i < 0 then CHR ''-'' # show_nat (nat (- i)) else show_nat (nat i))"

section \<open>Errors\<close>

text \<open>
  The three error classes of \<^verbatim>\<open>utils/errors\<close> with the arguments the client
  constructs them with, and the errors the runtime itself throws: a \<^verbatim>\<open>TypeError\<close>
  on a property read of \<^verbatim>\<open>undefined\<close>, a \<^verbatim>\<open>SyntaxError\<close> when
  \<^verbatim>\<open>response.json()\<close> meets a body that is not JSON, and the rejection of
  \<^verbatim>\<open>fetch\<close> itself. The message of a \<open>GoogleDocsApiError\<close> is whatever truthy
  value the error body held, or the default string.
\<close>

datatype error =
    AuthenticationError string
  | RateLimitError string jsnum
  | GoogleDocsApiError jsval nat
  | TypeError
  | SyntaxError
  | FetchError

section \<open>HTTP\<close>

datatype http_method = GET | POST

text \<open>
  The three URL shapes the client builds under the API base path:
  \<^verbatim>\<open>/documents\<close>, \<^verbatim>\<open>/documents/<id>\<close> and \<^verbatim>\<open>/documents/<id>:batchUpdate\<close>,
  the id passed through \<^verbatim>\<open>encodeURIComponent\<close> (which escapes both \<^verbatim>\<open>/\<close> and
  \<^verbatim>\<open>:\<close>, so the three shapes never coincide).
\<close>

datatype endpoint = Documents | DocumentById string | DocumentBatchUpdate string

record http_request =
  req_method :: http_method
  req_endpoint :: endpoint
  req_headers :: "(string \<times> string) list"
  req_body :: "jsval option"  \<comment> \<open>the value given to \<^verbatim>\<open>JSON.stringify\<close>, if any\<close>

text \<open>
  A response as \<^verbatim>\<open>request<T>\<close> observes it. The body is read at most once, by one
  of two branches: the error branch parses the text untyped (\<open>body_any\<close>, \<open>None\<close> when
  \<^verbatim>\<open>JSON.parse\<close> throws), the success branch takes \<^verbatim>\<open>response.json()\<close> at the
  type \<open>'a\<close> the caller expects (\<open>body_as\<close>, \<open>None\<close> when it rejects).
\<close>

record 'a http_response =
  status :: nat
  retry_after :: "string option"  \<comment> \<open>\<^verbatim>\<open>response.headers.get('Retry-After')\<close>\<close>
  body_any :: "jsval option"
  body_as :: "'a option"

definition ok :: "'a http_response \<Rightarrow> bool" where
  "ok r = (200 \<le> status r \<and> status r \<le> 299)"

datatype 'a fetch_result = Rejected | Responded "'a http_response"

text \<open>
  The remote service: given the requests issued so far and the next request, the outcome
  of \<^verbatim>\<open>fetch\<close>.
\<close>

type_synonym 'a fetcher = "http_request list \<Rightarrow> http_request \<Rightarrow> 'a fetch_result"

record tenant_credentials =
  accessToken :: "string option"

section \<open>The client's request helper\<close>

definition getAuthHeaders :: "tenant_credentials \<Rightarrow> error + (string \<times> string) list" where
  "getAuthHeaders creds =
     (case accessToken creds of
        None \<Rightarrow> Inl (AuthenticationError
                  ''No access token provided. Include X-Google-Access-Token header.'')
      | Some tok \<Rightarrow>
          if tok = [] then Inl (AuthenticationError
                  ''No access token provided. Include X-Google-Access-Token header.'')
          else Inr [(''Authorization'', ''Bearer '' @ tok),
                    (''Content-Type'', ''application/json'')])"

text \<open>
  The message of the error thrown for a response that is not ok: the default, replaced by
  \<^verbatim>\<open>errorJson.error?.message || errorJson.message || message\<close> unless parsing or the
  property read throws.
\<close>

definition api_error_message :: "nat \<Rightarrow> jsval option \<Rightarrow> jsval" where
  "api_error_message st parsed =
     (let message = JStr (''API error: '' @ show_nat st)
      in (case parsed of
            None \<Rightarrow> message
          | Some errorJson \<Rightarrow>
              if nullish errorJson then message
              else (let e = js_get errorJson ''error'';
                        m1 = (if nullish e then JUndefined else js_get e ''message'');
                        m2 = js_get errorJson ''message''
                    in if truthy m1 then m1 else if truthy m2 then m2 else message)))"

text \<open>What \<^verbatim>\<open>request\<close> does with the response once \<^verbatim>\<open>fetch\<close> has resolved.\<close>

definition handle_response :: "'a http_response \<Rightarrow> error + 'a option" where
  "handle_response response =
     (if status response = 429 then
        Inl (RateLimitError ''Rate limit exceeded''
              (case retry_after response of
                 None \<Rightarrow> Num 60
               | Some retryAfter \<Rightarrow> if retryAfter \<noteq> [] then parseInt retryAfter else Num 60))
      else if status response = 401 \<or> status response = 403 then
        Inl (AuthenticationError ''Authentication failed. Check your OAuth access token.'')
      else if \<not> ok response then
        Inl (GoogleDocsApiError (api_error_message (status response) (body_any response))
              (status response))
      else if status response = 204 then Inr None
      else (case body_as response of None \<Rightarrow> Inl SyntaxError | Some v \<Rightarrow> Inr (Some v)))"

text \<open>
  \<^verbatim>\<open>request\<close>: the headers are built first (and may throw before anything is sent),
  then the request is issued and recorded, then the response is classified. The result
  \<open>None\<close> is \<^verbatim>\<open>undefined\<close>.
\<close>

definition request ::
  "tenant_credentials \<Rightarrow> 'a fetcher \<Rightarrow> http_method \<Rightarrow> endpoint \<Rightarrow> jsval option \<Rightarrow>
   http_request list \<Rightarrow> (error + 'a option) \<times> http_request list" where
  "request creds fetch m ep b log =
     (case getAuthHeaders creds of
        Inl e \<Rightarrow> (Inl e, log)
      | Inr hs \<Rightarrow>
          (let rq = \<lparr>req_method = m, req_endpoint = ep, req_headers = hs, req_body = b\<rparr>
           in (case fetch log rq of
                 Rejected \<Rightarrow> (Inl FetchError, log @ [rq])
               | Responded response \<Rightarrow> (handle_response response, log @ [rq]))))"

section \<open>Documents and replies\<close>

text \<open>
  The parts of \<^verbatim>\<open>Document\<close> and \<^verbatim>\<open>BatchUpdateResponse\<close> that the code reads, with
  the optional fields of \<^verbatim>\<open>types/entities\<close> as options. \<^verbatim>\<open>Body.content\<close> and
  \<^verbatim>\<open>BatchUpdateResponse.replies\<close> are read with \<^verbatim>\<open>?.\<close> by the code, so they may be
  absent here too. A reply holds, for each kind the handlers look at, the one field of its
  response object.
\<close>

record structural_element =
  elem_startIndex :: "int option"
  elem_endIndex :: "int option"

record doc_body =
  body_content :: "structural_element list option"

record document =
  doc_documentId :: string
  doc_title :: string
  doc_body :: "doc_body option"

record reply =
  reply_replaceAllText :: "int option"  \<comment> \<open>\<^verbatim>\<open>occurrencesChanged\<close>\<close>
  reply_createNamedRange :: "string option"  \<comment> \<open>\<^verbatim>\<open>namedRangeId\<close>\<close>
  reply_insertInlineImage :: "string option"  \<comment> \<open>\<^verbatim>\<open>objectId\<close>\<close>
  reply_createHeader :: "string option"  \<comment> \<open>\<^verbatim>\<open>headerId\<close>\<close>
  reply_createFooter :: "string option"  \<comment> \<open>\<^verbatim>\<open>footerId\<close>\<close>
  reply_createFootnote :: "string option"  \<comment> \<open>\<^verbatim>\<open>footnoteId\<close>\<close>

record batch_update_response =
  resp_documentId :: string
  resp_replies :: "reply list option"

section \<open>The client\<close>

text \<open>
  A client instance: the credentials it was constructed with, and the remote service it
  talks to, which answers the document endpoints with documents and the batch-update
  endpoint with batch-update responses.
\<close>

record client =
  credentials :: tenant_credentials
  fetch_document :: "document fetcher"
  fetch_update :: "batch_update_response fetcher"

type_synonym 'a io = "http_request list \<Rightarrow> (error + 'a) \<times> http_request list"

text \<open>An optional argument as the value it has in an object literal.\<close>

definition opt_str :: "string option \<Rightarrow> jsval" where
  "opt_str x = (case x of None \<Rightarrow> JUndefined | Some s \<Rightarrow> JStr s)"

definition opt_num :: "int option \<Rightarrow> jsval" where
  "opt_num x = (case x of None \<Rightarrow> JUndefined | Some n \<Rightarrow> JNum n)"

definition range_obj :: "int \<Rightarrow> int \<Rightarrow> jsval" where
  \<comment> \<open>\<^verbatim>\<open>{ startIndex, endIndex }\<close>\<close>
  "range_obj startIndex endIndex = JObj [(''startIndex'', JNum startIndex), (''endIndex'', JNum endIndex)]"

definition location_obj :: "int \<Rightarrow> jsval" where
  \<comment> \<open>\<^verbatim>\<open>{ index }\<close>\<close>
  "location_obj index = JObj [(''index'', JNum index)]"

definition tableCellLocation_obj :: "int \<Rightarrow> int \<Rightarrow> int \<Rightarrow> jsval" where
  "tableCellLocation_obj tableStartIndex rowIndex columnIndex =
     JObj [(''tableStartLocation'', location_obj tableStartIndex),
           (''rowIndex'', JNum rowIndex), (''columnIndex'', JNum columnIndex)]"

definition tableRange_obj :: "int \<Rightarrow> int \<Rightarrow> int \<Rightarrow> int \<Rightarrow> int \<Rightarrow> jsval" where
  "tableRange_obj tableStartIndex rowIndex columnIndex rowSpan columnSpan =
     JObj [(''tableCellLocation'', tableCellLocation_obj tableStartIndex rowIndex columnIndex),
           (''rowSpan'', JNum rowSpan), (''columnSpan'', JNum columnSpan)]"

subsection \<open>Documents\<close>

definition createDocument :: "client \<Rightarrow> string \<Rightarrow> document option io" where
  "createDocument c title =
     request (credentials c) (fetch_document c) POST Documents
       (Some (JObj [(''title'', JStr title)]))"

definition getDocument :: "client \<Rightarrow> string \<Rightarrow> document option io" where
  "getDocument c documentId =
     request (credentials c) (fetch_document c) GET (DocumentById documentId) None"

definition batchUpdate :: "client \<Rightarrow> string \<Rightarrow> jsval list \<Rightarrow> batch_update_response option io" where
  "batchUpdate c documentId requests =
     request (credentials c) (fetch_update c) POST (DocumentBatchUpdate documentId)
       (Some (JObj [(''requests'', JArr requests)]))"

subsection \<open>Connection\<close>

text \<open>
  The message of the connection test: the success text, or the message of the error
  caught (\<^verbatim>\<open>error instanceof Error ? error.message : 'Connection failed'\<close>).
\<close>

datatype connection_message = ConnectedText string | MessageOf error

record connection_result =
  connected :: bool
  connection_message :: connection_message

definition testConnection :: "client \<Rightarrow> connection_result io" where
  "testConnection c log =
     (case createDocument c ''MCP Connection Test'' log of
        (Inl e, log1) \<Rightarrow> (Inr \<lparr>connected = False, connection_message = MessageOf e\<rparr>, log1)
      | (Inr None, log1) \<Rightarrow>
          (Inr \<lparr>connected = False, connection_message = MessageOf TypeError\<rparr>, log1)
      | (Inr (Some testDoc), log1) \<Rightarrow>
          (Inr \<lparr>connected = True, connection_message = ConnectedText
             (''Successfully connected to Google Docs API. Test document created with ID: ''
                @ doc_documentId testDoc)\<rparr>, log1))"

subsection \<open>Text operations\<close>

definition insertText :: "client \<Rightarrow> string \<Rightarrow> string \<Rightarrow> int \<Rightarrow> batch_update_response option io" where
  "insertText c documentId text index =
     batchUpdate c documentId
       [JObj [(''insertText'', JObj [(''text'', JStr text), (''location'', location_obj index)])]]"

definition deleteContent :: "client \<Rightarrow> string \<Rightarrow> int \<Rightarrow> int \<Rightarrow> batch_update_response option io" where
  "deleteContent c documentId startIndex endIndex =
     batchUpdate c documentId
       [JObj [(''deleteContentRange'', JObj [(''range'', range_obj startIndex endIndex)])]]"

definition replaceAllText ::
  "client \<Rightarrow> string \<Rightarrow> string \<Rightarrow> string \<Rightarrow> bool \<Rightarrow> batch_update_response option io" where
  "replaceAllText c documentId findText replaceText matchCase =
     batchUpdate c documentId
       [JObj [(''replaceAllText'',
          JObj [(''containsText'', JObj [(''text'', JStr findText), (''matchCase'', JBool matchCase)]),
                (''replaceText'', JStr replaceText)])]]"

text \<open>\<^verbatim>\<open>doc.body?.content?.slice(-1)[0]?.endIndex\<close>, \<open>None\<close> for \<^verbatim>\<open>undefined\<close>.\<close>

definition last_endIndex :: "document \<Rightarrow> int option" where
  "last_endIndex doc =
     (case doc_body doc of
        None \<Rightarrow> None
      | Some b \<Rightarrow>
          (case body_content b of
             None \<Rightarrow> None
           | Some elems \<Rightarrow> if elems = [] then None else elem_endIndex (last elems)))"

definition appendText :: "client \<Rightarrow> string \<Rightarrow> string \<Rightarrow> batch_update_response option io" where
  "appendText c documentId text log =
     (case getDocument c documentId log of
        (Inl e, log1) \<Rightarrow> (Inl e, log1)
      | (Inr None, log1) \<Rightarrow> (Inl TypeError, log1)
      | (Inr (Some doc), log1) \<Rightarrow>
          (let endIndex = (case last_endIndex doc of
                             None \<Rightarrow> 1
                           | Some n \<Rightarrow> if n = 0 then 1 else n)
           in insertText c documentId text (max 1 (endIndex - 1)) log1))"

subsection \<open>Text styling\<close>

definition updateTextStyle ::
  "client \<Rightarrow> string \<Rightarrow> int \<Rightarrow> int \<Rightarrow> jsval \<Rightarrow> string \<Rightarrow> batch_update_response option io" where
  "updateTextStyle c documentId startIndex endIndex textStyle fields' =
     batchUpdate c documentId
       [JObj [(''updateTextStyle'', JObj [(''range'', range_obj startIndex endIndex), (''textStyle'', textStyle),
                (''fields'', JStr fields')])]]"

definition updateParagraphStyle ::
  "client \<Rightarrow> string \<Rightarrow> int \<Rightarrow> int \<Rightarrow> jsval \<Rightarrow> string \<Rightarrow> batch_update_response option io" where
  "updateParagraphStyle c documentId startIndex endIndex paragraphStyle fields' =
     batchUpdate c documentId
       [JObj [(''updateParagraphStyle'', JObj [(''range'', range_obj startIndex endIndex), (''paragraphStyle'', paragraphStyle),
                (''fields'', JStr fields')])]]"

subsection \<open>Lists\<close>

definition createParagraphBullets ::
  "client \<Rightarrow> string \<Rightarrow> int \<Rightarrow> int \<Rightarrow> string option \<Rightarrow> batch_update_response option io" where
  "createParagraphBullets c documentId startIndex endIndex bulletPreset =
     batchUpdate c documentId
       [JObj [(''createParagraphBullets'', JObj [(''range'', range_obj startIndex endIndex),
                (''bulletPreset'', opt_str bulletPreset)])]]"

definition deleteParagraphBullets ::
  "client \<Rightarrow> string \<Rightarrow> int \<Rightarrow> int \<Rightarrow> batch_update_response option io" where
  "deleteParagraphBullets c documentId startIndex endIndex =
     batchUpdate c documentId
       [JObj [(''deleteParagraphBullets'', JObj [(''range'', range_obj startIndex endIndex)])]]"

subsection \<open>Named ranges\<close>

definition createNamedRange ::
  "client \<Rightarrow> string \<Rightarrow> string \<Rightarrow> int \<Rightarrow> int \<Rightarrow> batch_update_response option io" where
  "createNamedRange c documentId name startIndex endIndex =
     batchUpdate c documentId
       [JObj [(''createNamedRange'', JObj [(''name'', JStr name), (''range'', range_obj startIndex endIndex)])]]"

definition deleteNamedRange ::
  "client \<Rightarrow> string \<Rightarrow> string option \<Rightarrow> string option \<Rightarrow> batch_update_response option io" where
  "deleteNamedRange c documentId namedRangeId name =
     batchUpdate c documentId
       [JObj [(''deleteNamedRange'', JObj [(''namedRangeId'', opt_str namedRangeId), (''name'', opt_str name)])]]"

definition replaceNamedRangeContent ::
  "client \<Rightarrow> string \<Rightarrow> string \<Rightarrow> string option \<Rightarrow> string option \<Rightarrow> batch_update_response option io" where
  "replaceNamedRangeContent c documentId text namedRangeId namedRangeName =
     batchUpdate c documentId
       [JObj [(''replaceNamedRangeContent'', JObj [(''namedRangeId'', opt_str namedRangeId),
                (''namedRangeName'', opt_str namedRangeName), (''text'', JStr text)])]]"

subsection \<open>Tables\<close>

definition insertTable ::
  "client \<Rightarrow> string \<Rightarrow> int \<Rightarrow> int \<Rightarrow> int \<Rightarrow> batch_update_response option io" where
  "insertTable c documentId rows columns index =
     batchUpdate c documentId
       [JObj [(''insertTable'', JObj [(''rows'', JNum rows), (''columns'', JNum columns),
                (''location'', location_obj index)])]]"

definition insertTableRow ::
  "client \<Rightarrow> string \<Rightarrow> int \<Rightarrow> int \<Rightarrow> int \<Rightarrow> bool \<Rightarrow> batch_update_response option io" where
  "insertTableRow c documentId tableStartIndex rowIndex columnIndex insertBelow =
     batchUpdate c documentId
       [JObj [(''insertTableRow'', JObj [(''tableCellLocation'', tableCellLocation_obj tableStartIndex rowIndex columnIndex),
                (''insertBelow'', JBool insertBelow)])]]"

definition insertTableColumn ::
  "client \<Rightarrow> string \<Rightarrow> int \<Rightarrow> int \<Rightarrow> int \<Rightarrow> bool \<Rightarrow> batch_update_response option io" where
  "insertTableColumn c documentId tableStartIndex rowIndex columnIndex insertRight =
     batchUpdate c documentId
       [JObj [(''insertTableColumn'', JObj [(''tableCellLocation'', tableCellLocation_obj tableStartIndex rowIndex columnIndex),
                (''insertRight'', JBool insertRight)])]]"

definition deleteTableRow ::
  "client \<Rightarrow> string \<Rightarrow> int \<Rightarrow> int \<Rightarrow> int \<Rightarrow> batch_update_response option io" where
  "deleteTableRow c documentId tableStartIndex rowIndex columnIndex =
     batchUpdate c documentId
       [JObj [(''deleteTableRow'', JObj [(''tableCellLocation'', tableCellLocation_obj tableStartIndex rowIndex columnIndex)])]]"

definition deleteTableColumn ::
  "client \<Rightarrow> string \<Rightarrow> int \<Rightarrow> int \<Rightarrow> int \<Rightarrow> batch_update_response option io" where
  "deleteTableColumn c documentId tableStartIndex rowIndex columnIndex =
     batchUpdate c documentId
       [JObj [(''deleteTableColumn'', JObj [(''tableCellLocation'', tableCellLocation_obj tableStartIndex rowIndex columnIndex)])]]"

definition mergeTableCells ::
  "client \<Rightarrow> string \<Rightarrow> int \<Rightarrow> int \<Rightarrow> int \<Rightarrow> int \<Rightarrow> int \<Rightarrow> batch_update_response option io" where
  "mergeTableCells c documentId tableStartIndex rowIndex columnIndex rowSpan columnSpan =
     batchUpdate c documentId
       [JObj [(''mergeTableCells'', JObj [(''tableRange'',
                  tableRange_obj tableStartIndex rowIndex columnIndex rowSpan columnSpan)])]]"

definition unmergeTableCells ::
  "client \<Rightarrow> string \<Rightarrow> int \<Rightarrow> int \<Rightarrow> int \<Rightarrow> int \<Rightarrow> int \<Rightarrow> batch_update_response option io" where
  "unmergeTableCells c documentId tableStartIndex rowIndex columnIndex rowSpan columnSpan =
     batchUpdate c documentId
       [JObj [(''unmergeTableCells'', JObj [(''tableRange'',
                  tableRange_obj tableStartIndex rowIndex columnIndex rowSpan columnSpan)])]]"

definition updateTableCellStyle ::
  "client \<Rightarrow> string \<Rightarrow> int \<Rightarrow> int \<Rightarrow> int \<Rightarrow> int \<Rightarrow> int \<Rightarrow> jsval \<Rightarrow> string \<Rightarrow> batch_update_response option io" where
  "updateTableCellStyle c documentId tableStartIndex rowIndex columnIndex rowSpan columnSpan tableCellStyle fields' =
     batchUpdate c documentId
       [JObj [(''updateTableCellStyle'', JObj [(''tableRange'',
                  tableRange_obj tableStartIndex rowIndex columnIndex rowSpan columnSpan),
                (''tableCellStyle'', tableCellStyle), (''fields'', JStr fields')])]]"

definition updateTableRowStyle ::
  "client \<Rightarrow> string \<Rightarrow> int \<Rightarrow> int list \<Rightarrow> jsval \<Rightarrow> string \<Rightarrow> batch_update_response option io" where
  "updateTableRowStyle c documentId tableStartIndex rowIndices tableRowStyle fields' =
     batchUpdate c documentId
       [JObj [(''updateTableRowStyle'', JObj [(''tableStartLocation'', location_obj tableStartIndex),
                (''rowIndices'', JArr (map JNum rowIndices)),
                (''tableRowStyle'', tableRowStyle), (''fields'', JStr fields')])]]"

definition updateTableColumnProperties ::
  "client \<Rightarrow> string \<Rightarrow> int \<Rightarrow> int list \<Rightarrow> jsval \<Rightarrow> string \<Rightarrow> batch_update_response option io" where
  "updateTableColumnProperties c documentId tableStartIndex columnIndices tableColumnProperties fields' =
     batchUpdate c documentId
       [JObj [(''updateTableColumnProperties'', JObj [(''tableStartLocation'', location_obj tableStartIndex),
                (''columnIndices'', JArr (map JNum columnIndices)),
                (''tableColumnProperties'', tableColumnProperties), (''fields'', JStr fields')])]]"

definition pinTableHeaderRows ::
  "client \<Rightarrow> string \<Rightarrow> int \<Rightarrow> int \<Rightarrow> batch_update_response option io" where
  "pinTableHeaderRows c documentId tableStartIndex pinnedHeaderRowsCount =
     batchUpdate c documentId
       [JObj [(''pinTableHeaderRows'', JObj [(''tableStartLocation'', location_obj tableStartIndex),
                (''pinnedHeaderRowsCount'', JNum pinnedHeaderRowsCount)])]]"

subsection \<open>Images\<close>

definition dimension_obj :: "int \<Rightarrow> jsval" where
  \<comment> \<open>\<^verbatim>\<open>{ magnitude, unit: 'PT' }\<close>\<close>
  "dimension_obj magnitude = JObj [(''magnitude'', JNum magnitude), (''unit'', JStr ''PT'')]"

text \<open>\<^verbatim>\<open>width && height ? { width: ..., height: ... } : undefined\<close>\<close>

definition objectSize_of :: "int option \<Rightarrow> int option \<Rightarrow> jsval" where
  "objectSize_of width height =
     (if truthy (opt_num width) \<and> truthy (opt_num height)
      then JObj [(''width'', dimension_obj (the width)), (''height'', dimension_obj (the height))]
      else JUndefined)"

definition insertInlineImage ::
  "client \<Rightarrow> string \<Rightarrow> string \<Rightarrow> int \<Rightarrow> int option \<Rightarrow> int option \<Rightarrow> batch_update_response option io" where
  "insertInlineImage c documentId uri index width height =
     batchUpdate c documentId
       [JObj [(''insertInlineImage'', JObj [(''uri'', JStr uri), (''location'', location_obj index),
                (''objectSize'', objectSize_of width height)])]]"

definition replaceImage ::
  "client \<Rightarrow> string \<Rightarrow> string \<Rightarrow> string \<Rightarrow> batch_update_response option io" where
  "replaceImage c documentId imageObjectId uri =
     batchUpdate c documentId
       [JObj [(''replaceImage'', JObj [(''imageObjectId'', JStr imageObjectId), (''uri'', JStr uri)])]]"

definition deletePositionedObject ::
  "client \<Rightarrow> string \<Rightarrow> string \<Rightarrow> batch_update_response option io" where
  "deletePositionedObject c documentId objectId =
     batchUpdate c documentId
       [JObj [(''deletePositionedObject'', JObj [(''objectId'', JStr objectId)])]]"

subsection \<open>Page breaks and section breaks\<close>

definition insertPageBreak ::
  "client \<Rightarrow> string \<Rightarrow> int \<Rightarrow> batch_update_response option io" where
  "insertPageBreak c documentId index =
     batchUpdate c documentId
       [JObj [(''insertPageBreak'', JObj [(''location'', location_obj index)])]]"

definition insertSectionBreak ::
  "client \<Rightarrow> string \<Rightarrow> int \<Rightarrow> string \<Rightarrow> batch_update_response option io" where
  "insertSectionBreak c documentId index sectionType =
     batchUpdate c documentId
       [JObj [(''insertSectionBreak'', JObj [(''location'', location_obj index), (''sectionType'', JStr sectionType)])]]"

subsection \<open>Headers, footers and footnotes\<close>

text \<open>\<^verbatim>\<open>sectionBreakIndex ? { index: sectionBreakIndex } : undefined\<close>\<close>

definition sectionBreakLocation_of :: "int option \<Rightarrow> jsval" where
  "sectionBreakLocation_of sectionBreakIndex =
     (if truthy (opt_num sectionBreakIndex) then location_obj (the sectionBreakIndex)
      else JUndefined)"

definition createHeader ::
  "client \<Rightarrow> string \<Rightarrow> string \<Rightarrow> int option \<Rightarrow> batch_update_response option io" where
  "createHeader c documentId type sectionBreakIndex =
     batchUpdate c documentId
       [JObj [(''createHeader'', JObj [(''type'', JStr type),
                (''sectionBreakLocation'', sectionBreakLocation_of sectionBreakIndex)])]]"

definition createFooter ::
  "client \<Rightarrow> string \<Rightarrow> string \<Rightarrow> int option \<Rightarrow> batch_update_response option io" where
  "createFooter c documentId type sectionBreakIndex =
     batchUpdate c documentId
       [JObj [(''createFooter'', JObj [(''type'', JStr type),
                (''sectionBreakLocation'', sectionBreakLocation_of sectionBreakIndex)])]]"

definition deleteHeader ::
  "client \<Rightarrow> string \<Rightarrow> string \<Rightarrow> batch_update_response option io" where
  "deleteHeader c documentId headerId =
     batchUpdate c documentId
       [JObj [(''deleteHeader'', JObj [(''headerId'', JStr headerId)])]]"

definition deleteFooter ::
  "client \<Rightarrow> string \<Rightarrow> string \<Rightarrow> batch_update_response option io" where
  "deleteFooter c documentId footerId =
     batchUpdate c documentId
       [JObj [(''deleteFooter'', JObj [(''footerId'', JStr footerId)])]]"

definition createFootnote ::
  "client \<Rightarrow> string \<Rightarrow> int \<Rightarrow> batch_update_response option io" where
  "createFootnote c documentId index =
     batchUpdate c documentId
       [JObj [(''createFootnote'', JObj [(''location'', location_obj index)])]]"

subsection \<open>Document style\<close>

definition updateDocumentStyle ::
  "client \<Rightarrow> string \<Rightarrow> jsval \<Rightarrow> string \<Rightarrow> batch_update_response option io" where
  "updateDocumentStyle c documentId documentStyle fields' =
     batchUpdate c documentId
       [JObj [(''updateDocumentStyle'', JObj [(''documentStyle'', documentStyle), (''fields'', JStr fields')])]]"

definition updateSectionStyle ::
  "client \<Rightarrow> string \<Rightarrow> int \<Rightarrow> int \<Rightarrow> jsval \<Rightarrow> string \<Rightarrow> batch_update_response option io" where
  "updateSectionStyle c documentId startIndex endIndex sectionStyle fields' =
     batchUpdate c documentId
       [JObj [(''updateSectionStyle'', JObj [(''range'', range_obj startIndex endIndex), (''sectionStyle'', sectionStyle),
                (''fields'', JStr fields')])]]"

section \<open>Tool results\<close>

text \<open>
  What a handler hands to \<^verbatim>\<open>JSON.stringify\<close> as the second argument of
  \<^verbatim>\<open>formatSuccess\<close>: a document, a batch-update response (either may be
  \<^verbatim>\<open>undefined\<close>), or the empty object.
\<close>

datatype data = DocumentData "document option" | UpdateData "batch_update_response option" | EmptyData

text \<open>
  The single text item of a tool result, before it is rendered as JSON text: the envelope
  of \<^verbatim>\<open>formatSuccess\<close>, \<^verbatim>\<open>formatResponse\<close> or \<^verbatim>\<open>formatError\<close>, the
  \<^verbatim>\<open>{ error: ... }\<close> object a handler builds itself, or one of the two texts of the
  connection test.
\<close>

datatype envelope =
    Success string data
  | Plain "document option"
  | Failure error
  | Rejection string
  | Connection connection_result
  | ConnectionFailed error

record tool_result =
  result_content :: envelope
  isError :: bool

text \<open>
  Modelled from the spec: \<^verbatim>\<open>formatSuccess\<close> of \<^verbatim>\<open>utils/formatters\<close>, which is
  not among the sources. The spec gives the success envelope as
  \<^verbatim>\<open>{ message: string, data: <raw response> }\<close>, with no error flag.
\<close>

definition formatSuccess :: "string \<Rightarrow> data \<Rightarrow> tool_result" where
  "formatSuccess message d = \<lparr>result_content = Success message d, isError = False\<rparr>"

text \<open>
  Modelled from the spec: \<^verbatim>\<open>formatResponse\<close> of \<^verbatim>\<open>utils/formatters\<close>, which is
  not among the sources: the raw response reshaped into the result, with no error flag.
\<close>

definition formatResponse :: "document option \<Rightarrow> tool_result" where
  "formatResponse d = \<lparr>result_content = Plain d, isError = False\<rparr>"

text \<open>
  Modelled from the spec: \<^verbatim>\<open>formatError\<close> of \<^verbatim>\<open>utils/formatters\<close>, which is
  not among the sources. The spec gives the failure envelope as \<^verbatim>\<open>{ error: message }\<close>
  with an error flag, the failure surfaced verbatim, and the conversion as non-throwing.
\<close>

definition formatError :: "error \<Rightarrow> tool_result" where
  "formatError e = \<lparr>result_content = Failure e, isError = True\<rparr>"

text \<open>
  How a handler invocation ends: it returns a result, or an exception escapes it. The
  third outcome belongs to the dispatch: the input was refused before any handler ran.
\<close>

datatype outcome = Returned tool_result | Thrown error | InvalidParams

text \<open>
  The shape shared by the handler bodies,
  \<^verbatim>\<open>try { const result = await <call>; return <build result> } catch (error) { return formatError(error) }\<close>:
  \<open>then_return\<close> is the body of the \<^verbatim>\<open>try\<close>, where the call or the code after it
  may throw; \<open>try_catch\<close> is the \<^verbatim>\<open>catch\<close> clause around it.
\<close>

definition then_return ::
  "(error + 'a) \<times> http_request list \<Rightarrow> ('a \<Rightarrow> error + tool_result) \<Rightarrow>
   (error + tool_result) \<times> http_request list" where
  "then_return r k = (case r of (Inl e, log) \<Rightarrow> (Inl e, log) | (Inr v, log) \<Rightarrow> (k v, log))"

definition try_catch ::
  "(error + tool_result) \<times> http_request list \<Rightarrow> outcome \<times> http_request list" where
  "try_catch r =
     (case r of
        (Inl e, log) \<Rightarrow> (Returned (formatError e), log)
      | (Inr res, log) \<Rightarrow> (Returned res, log))"

text \<open>\<^verbatim>\<open>result.replies?.[0]\<close>: a \<^verbatim>\<open>TypeError\<close> when the result is \<^verbatim>\<open>undefined\<close>.\<close>

definition first_reply :: "batch_update_response option \<Rightarrow> error + reply option" where
  "first_reply result =
     (case result of
        None \<Rightarrow> Inl TypeError
      | Some r \<Rightarrow>
          Inr (case resp_replies r of
                 None \<Rightarrow> None
               | Some rs \<Rightarrow> (case rs of [] \<Rightarrow> None | x # _ \<Rightarrow> Some x)))"

text \<open>\<^verbatim>\<open>${id ? ` (ID: ${id})` : ''}\<close>\<close>

definition id_suffix :: "string option \<Rightarrow> string" where
  "id_suffix x = (if truthy (opt_str x) then '' (ID: '' @ the x @ '')'' else [])"

text \<open>\<^verbatim>\<open>xs.join(sep)\<close>\<close>

fun join :: "string \<Rightarrow> string list \<Rightarrow> string" where
  "join sep [] = []"
| "join sep [x] = x"
| "join sep (x # y # ys) = x @ sep @ join sep (y # ys)"

section \<open>Tool handlers\<close>

text \<open>
  One definition for each handler registered with \<^verbatim>\<open>server.tool\<close>, taking the
  arguments the handler destructures (after the schema's defaults) and the requests issued
  so far. Strings are byte strings here, so \<^verbatim>\<open>slice\<close> and \<^verbatim>\<open>length\<close> count
  bytes where JavaScript counts UTF-16 units.
\<close>

definition dq :: string where
  "dq = [CHR 0x22]"

subsection \<open>Document tools\<close>

definition googledocs_create_handler ::
  "client \<Rightarrow> string \<Rightarrow> http_request list \<Rightarrow> outcome \<times> http_request list" where
  "googledocs_create_handler c title log =
     try_catch (then_return (createDocument c title log)
       (\<lambda>document.
          case document of
            None \<Rightarrow> Inl TypeError
          | Some d \<Rightarrow>
              Inr (formatSuccess (''Document created: '' @ doc_documentId d)
                     (DocumentData document))))"

definition googledocs_get_handler ::
  "client \<Rightarrow> string \<Rightarrow> http_request list \<Rightarrow> outcome \<times> http_request list" where
  "googledocs_get_handler c documentId log =
     try_catch (then_return (getDocument c documentId log)
       (\<lambda>document. Inr (formatResponse document)))"

definition googledocs_batch_update_handler ::
  "client \<Rightarrow> string \<Rightarrow> jsval list \<Rightarrow> http_request list \<Rightarrow> outcome \<times> http_request list" where
  "googledocs_batch_update_handler c documentId requests log =
     try_catch (then_return (batchUpdate c documentId requests log)
       (\<lambda>result. Inr (formatSuccess (''Batch update completed'') (UpdateData result))))"

definition googledocs_test_connection_handler ::
  "client \<Rightarrow> http_request list \<Rightarrow> outcome \<times> http_request list" where
  "googledocs_test_connection_handler c log =
     (case testConnection c log of
        (Inl e, log1) \<Rightarrow>
          (Returned \<lparr>result_content = ConnectionFailed e, isError = True\<rparr>, log1)
      | (Inr result, log1) \<Rightarrow>
          (Returned \<lparr>result_content = Connection result, isError = False\<rparr>, log1))"

subsection \<open>Content tools\<close>

definition googledocs_insert_text_handler ::
  "client \<Rightarrow> string \<Rightarrow> string \<Rightarrow> int \<Rightarrow> http_request list \<Rightarrow> outcome \<times> http_request list" where
  "googledocs_insert_text_handler c documentId text index log =
     try_catch (then_return (insertText c documentId text index log)
       (\<lambda>result. Inr (formatSuccess (''Text inserted at index '' @ show_int index) (UpdateData result))))"

definition googledocs_delete_content_handler ::
  "client \<Rightarrow> string \<Rightarrow> int \<Rightarrow> int \<Rightarrow> http_request list \<Rightarrow> outcome \<times> http_request list" where
  "googledocs_delete_content_handler c documentId startIndex endIndex log =
     try_catch (then_return (deleteContent c documentId startIndex endIndex log)
       (\<lambda>result. Inr (formatSuccess (''Content deleted from '' @ show_int startIndex @ '' to '' @ show_int endIndex) (UpdateData result))))"

definition googledocs_replace_text_handler ::
  "client \<Rightarrow> string \<Rightarrow> string \<Rightarrow> string \<Rightarrow> bool \<Rightarrow> http_request list \<Rightarrow> outcome \<times> http_request list" where
  "googledocs_replace_text_handler c documentId findText replaceText matchCase log =
     try_catch (then_return (replaceAllText c documentId findText replaceText matchCase log)
       (\<lambda>result.
          case first_reply result of
            Inl e \<Rightarrow> Inl e
          | Inr r \<Rightarrow>
              (let occurrences = (case Option.bind r reply_replaceAllText of
                                    None \<Rightarrow> 0
                                  | Some n \<Rightarrow> n)
               in Inr (formatSuccess
                        (''Replaced '' @ show_int occurrences @ '' occurrence(s) of '' @ dq
                           @ findText @ dq)
                        (UpdateData result)))))"

definition googledocs_append_text_handler ::
  "client \<Rightarrow> string \<Rightarrow> string \<Rightarrow> http_request list \<Rightarrow> outcome \<times> http_request list" where
  "googledocs_append_text_handler c documentId text log =
     try_catch (then_return (appendText c documentId text log)
       (\<lambda>result. Inr (formatSuccess (''Text appended to document'') (UpdateData result))))"

definition googledocs_insert_page_break_handler ::
  "client \<Rightarrow> string \<Rightarrow> int \<Rightarrow> http_request list \<Rightarrow> outcome \<times> http_request list" where
  "googledocs_insert_page_break_handler c documentId index log =
     try_catch (then_return (insertPageBreak c documentId index log)
       (\<lambda>result. Inr (formatSuccess (''Page break inserted at index '' @ show_int index) (UpdateData result))))"

definition googledocs_insert_section_break_handler ::
  "client \<Rightarrow> string \<Rightarrow> int \<Rightarrow> string \<Rightarrow> http_request list \<Rightarrow> outcome \<times> http_request list" where
  "googledocs_insert_section_break_handler c documentId index sectionType log =
     try_catch (then_return (insertSectionBreak c documentId index sectionType log)
       (\<lambda>result. Inr (formatSuccess (''Section break ('' @ sectionType @ '') inserted at index '' @ show_int index) (UpdateData result))))"

subsection \<open>Formatting tools\<close>

text \<open>
  The handler of \<^verbatim>\<open>googledocs_format_text\<close> walks its optional arguments in a fixed
  order; for each one that is not \<^verbatim>\<open>undefined\<close> it sets a property of
  \<^verbatim>\<open>textStyle\<close> and pushes a name onto \<^verbatim>\<open>fields\<close>. The list below holds, in that
  order, the pushed name, the property set and its value.
\<close>

definition format_text_changes ::
  "bool option \<Rightarrow> bool option \<Rightarrow> bool option \<Rightarrow> bool option \<Rightarrow> int option \<Rightarrow> string option \<Rightarrow>
   (string \<times> string \<times> jsval) list" where
  "format_text_changes bold italic underline strikethrough fontSize fontFamily =
     (case bold of None \<Rightarrow> [] | Some b \<Rightarrow> [(''bold'', ''bold'', JBool b)]) @
     (case italic of None \<Rightarrow> [] | Some b \<Rightarrow> [(''italic'', ''italic'', JBool b)]) @
     (case underline of None \<Rightarrow> [] | Some b \<Rightarrow> [(''underline'', ''underline'', JBool b)]) @
     (case strikethrough of None \<Rightarrow> []
      | Some b \<Rightarrow> [(''strikethrough'', ''strikethrough'', JBool b)]) @
     (case fontSize of None \<Rightarrow> []
      | Some n \<Rightarrow> [(''fontSize'', ''fontSize'', dimension_obj n)]) @
     (case fontFamily of None \<Rightarrow> []
      | Some f \<Rightarrow> [(''weightedFontFamily'', ''weightedFontFamily'',
                    JObj [(''fontFamily'', JStr f)])])"

definition googledocs_format_text_handler ::
  "client \<Rightarrow> string \<Rightarrow> int \<Rightarrow> int \<Rightarrow> bool option \<Rightarrow> bool option \<Rightarrow> bool option \<Rightarrow> bool option \<Rightarrow>
   int option \<Rightarrow> string option \<Rightarrow> http_request list \<Rightarrow> outcome \<times> http_request list" where
  "googledocs_format_text_handler c documentId startIndex endIndex bold italic underline
       strikethrough fontSize fontFamily log =
     (let changes = format_text_changes bold italic underline strikethrough fontSize fontFamily;
          textStyle = JObj (map snd changes);
          fields' = map fst changes
      in if length fields' = 0
         then try_catch (Inr (formatSuccess ''No formatting changes specified'' EmptyData), log)
         else try_catch (then_return
                (updateTextStyle c documentId startIndex endIndex textStyle (join '','' fields') log)
                (\<lambda>result. Inr (formatSuccess
                   (''Text formatted from '' @ show_int startIndex @ '' to '' @ show_int endIndex)
                   (UpdateData result)))))"

definition googledocs_update_text_style_handler ::
  "client \<Rightarrow> string \<Rightarrow> int \<Rightarrow> int \<Rightarrow> jsval \<Rightarrow> string \<Rightarrow> http_request list \<Rightarrow> outcome \<times> http_request list" where
  "googledocs_update_text_style_handler c documentId startIndex endIndex textStyle fields' log =
     try_catch (then_return (updateTextStyle c documentId startIndex endIndex textStyle fields' log)
       (\<lambda>result. Inr (formatSuccess (''Text style updated from '' @ show_int startIndex @ '' to '' @ show_int endIndex) (UpdateData result))))"

text \<open>
  The same for \<^verbatim>\<open>googledocs_format_paragraph\<close>, whose first two tests are on the
  truth value of the argument (\<^verbatim>\<open>if (alignment)\<close>, \<^verbatim>\<open>if (headingType)\<close>) and the
  others on \<^verbatim>\<open>!== undefined\<close>.
\<close>

definition format_paragraph_changes ::
  "string option \<Rightarrow> string option \<Rightarrow> int option \<Rightarrow> int option \<Rightarrow> int option \<Rightarrow>
   (string \<times> string \<times> jsval) list" where
  "format_paragraph_changes alignment headingType lineSpacing spaceAbove spaceBelow =
     (if truthy (opt_str alignment)
      then [(''alignment'', ''alignment'', opt_str alignment)] else []) @
     (if truthy (opt_str headingType)
      then [(''namedStyleType'', ''namedStyleType'', opt_str headingType)] else []) @
     (case lineSpacing of None \<Rightarrow> []
      | Some n \<Rightarrow> [(''lineSpacing'', ''lineSpacing'', JNum n)]) @
     (case spaceAbove of None \<Rightarrow> []
      | Some n \<Rightarrow> [(''spaceAbove'', ''spaceAbove'', dimension_obj n)]) @
     (case spaceBelow of None \<Rightarrow> []
      | Some n \<Rightarrow> [(''spaceBelow'', ''spaceBelow'', dimension_obj n)])"

definition googledocs_format_paragraph_handler ::
  "client \<Rightarrow> string \<Rightarrow> int \<Rightarrow> int \<Rightarrow> string option \<Rightarrow> string option \<Rightarrow> int option \<Rightarrow> int option \<Rightarrow>
   int option \<Rightarrow> http_request list \<Rightarrow> outcome \<times> http_request list" where
  "googledocs_format_paragraph_handler c documentId startIndex endIndex alignment headingType
       lineSpacing spaceAbove spaceBelow log =
     (let changes = format_paragraph_changes alignment headingType lineSpacing spaceAbove
                      spaceBelow;
          paragraphStyle = JObj (map snd changes);
          fields' = map fst changes
      in if length fields' = 0
         then try_catch
                (Inr (formatSuccess ''No paragraph formatting changes specified'' EmptyData), log)
         else try_catch (then_return
                (updateParagraphStyle c documentId startIndex endIndex paragraphStyle
                   (join '','' fields') log)
                (\<lambda>result. Inr (formatSuccess
                   (''Paragraph formatted from '' @ show_int startIndex @ '' to ''
                      @ show_int endIndex)
                   (UpdateData result)))))"

definition googledocs_update_paragraph_style_handler ::
  "client \<Rightarrow> string \<Rightarrow> int \<Rightarrow> int \<Rightarrow> jsval \<Rightarrow> string \<Rightarrow> http_request list \<Rightarrow> outcome \<times> http_request list" where
  "googledocs_update_paragraph_style_handler c documentId startIndex endIndex paragraphStyle fields' log =
     try_catch (then_return (updateParagraphStyle c documentId startIndex endIndex paragraphStyle fields' log)
       (\<lambda>result. Inr (formatSuccess (''Paragraph style updated from '' @ show_int startIndex @ '' to '' @ show_int endIndex) (UpdateData result))))"

definition googledocs_update_document_style_handler ::
  "client \<Rightarrow> string \<Rightarrow> jsval \<Rightarrow> string \<Rightarrow> http_request list \<Rightarrow> outcome \<times> http_request list" where
  "googledocs_update_document_style_handler c documentId documentStyle fields' log =
     try_catch (then_return (updateDocumentStyle c documentId documentStyle fields' log)
       (\<lambda>result. Inr (formatSuccess (''Document style updated'') (UpdateData result))))"

definition googledocs_update_section_style_handler ::
  "client \<Rightarrow> string \<Rightarrow> int \<Rightarrow> int \<Rightarrow> jsval \<Rightarrow> string \<Rightarrow> http_request list \<Rightarrow> outcome \<times> http_request list" where
  "googledocs_update_section_style_handler c documentId startIndex endIndex sectionStyle fields' log =
     try_catch (then_return (updateSectionStyle c documentId startIndex endIndex sectionStyle fields' log)
       (\<lambda>result. Inr (formatSuccess (''Section style updated from '' @ show_int startIndex @ '' to '' @ show_int endIndex) (UpdateData result))))"

subsection \<open>Table tools\<close>

definition googledocs_insert_table_handler ::
  "client \<Rightarrow> string \<Rightarrow> int \<Rightarrow> int \<Rightarrow> int \<Rightarrow> http_request list \<Rightarrow> outcome \<times> http_request list" where
  "googledocs_insert_table_handler c documentId rows columns index log =
     try_catch (then_return (insertTable c documentId rows columns index log)
       (\<lambda>result. Inr (formatSuccess (''Table ('' @ show_int rows @ ''x'' @ show_int columns @ '') inserted at index ''
          @ show_int index) (UpdateData result))))"

definition googledocs_insert_table_row_handler ::
  "client \<Rightarrow> string \<Rightarrow> int \<Rightarrow> int \<Rightarrow> int \<Rightarrow> bool \<Rightarrow> http_request list \<Rightarrow> outcome \<times> http_request list" where
  "googledocs_insert_table_row_handler c documentId tableStartIndex rowIndex columnIndex insertBelow log =
     try_catch (then_return (insertTableRow c documentId tableStartIndex rowIndex columnIndex insertBelow log)
       (\<lambda>result. Inr (formatSuccess (''Row inserted '' @ (if insertBelow then ''below'' else ''above'') @ '' row ''
          @ show_int rowIndex) (UpdateData result))))"

definition googledocs_insert_table_column_handler ::
  "client \<Rightarrow> string \<Rightarrow> int \<Rightarrow> int \<Rightarrow> int \<Rightarrow> bool \<Rightarrow> http_request list \<Rightarrow> outcome \<times> http_request list" where
  "googledocs_insert_table_column_handler c documentId tableStartIndex rowIndex columnIndex insertRight log =
     try_catch (then_return (insertTableColumn c documentId tableStartIndex rowIndex columnIndex insertRight log)
       (\<lambda>result. Inr (formatSuccess (''Column inserted '' @ (if insertRight then ''right of'' else ''left of'')
          @ '' column '' @ show_int columnIndex) (UpdateData result))))"

definition googledocs_delete_table_row_handler ::
  "client \<Rightarrow> string \<Rightarrow> int \<Rightarrow> int \<Rightarrow> int \<Rightarrow> http_request list \<Rightarrow> outcome \<times> http_request list" where
  "googledocs_delete_table_row_handler c documentId tableStartIndex rowIndex columnIndex log =
     try_catch (then_return (deleteTableRow c documentId tableStartIndex rowIndex columnIndex log)
       (\<lambda>result. Inr (formatSuccess (''Row '' @ show_int rowIndex @ '' deleted'') (UpdateData result))))"

definition googledocs_delete_table_column_handler ::
  "client \<Rightarrow> string \<Rightarrow> int \<Rightarrow> int \<Rightarrow> int \<Rightarrow> http_request list \<Rightarrow> outcome \<times> http_request list" where
  "googledocs_delete_table_column_handler c documentId tableStartIndex rowIndex columnIndex log =
     try_catch (then_return (deleteTableColumn c documentId tableStartIndex rowIndex columnIndex log)
       (\<lambda>result. Inr (formatSuccess (''Column '' @ show_int columnIndex @ '' deleted'') (UpdateData result))))"

definition googledocs_merge_table_cells_handler ::
  "client \<Rightarrow> string \<Rightarrow> int \<Rightarrow> int \<Rightarrow> int \<Rightarrow> int \<Rightarrow> int \<Rightarrow> http_request list \<Rightarrow> outcome \<times> http_request list" where
  "googledocs_merge_table_cells_handler c documentId tableStartIndex rowIndex columnIndex rowSpan columnSpan log =
     try_catch (then_return (mergeTableCells c documentId tableStartIndex rowIndex columnIndex rowSpan columnSpan log)
       (\<lambda>result. Inr (formatSuccess (''Merged '' @ show_int rowSpan @ ''x'' @ show_int columnSpan @ '' cells starting at (''
          @ show_int rowIndex @ '', '' @ show_int columnIndex @ '')'') (UpdateData result))))"

definition googledocs_unmerge_table_cells_handler ::
  "client \<Rightarrow> string \<Rightarrow> int \<Rightarrow> int \<Rightarrow> int \<Rightarrow> int \<Rightarrow> int \<Rightarrow> http_request list \<Rightarrow> outcome \<times> http_request list" where
  "googledocs_unmerge_table_cells_handler c documentId tableStartIndex rowIndex columnIndex rowSpan columnSpan log =
     try_catch (then_return (unmergeTableCells c documentId tableStartIndex rowIndex columnIndex rowSpan columnSpan log)
       (\<lambda>result. Inr (formatSuccess (''Unmerged cells at ('' @ show_int rowIndex @ '', '' @ show_int columnIndex @ '')'') (UpdateData result))))"

definition googledocs_update_table_cell_style_handler ::
  "client \<Rightarrow> string \<Rightarrow> int \<Rightarrow> int \<Rightarrow> int \<Rightarrow> int \<Rightarrow> int \<Rightarrow> jsval \<Rightarrow> string \<Rightarrow> http_request list \<Rightarrow> outcome \<times> http_request list" where
  "googledocs_update_table_cell_style_handler c documentId tableStartIndex rowIndex columnIndex rowSpan columnSpan tableCellStyle fields' log =
     try_catch (then_return (updateTableCellStyle c documentId tableStartIndex rowIndex columnIndex rowSpan
                  columnSpan tableCellStyle fields' log)
       (\<lambda>result. Inr (formatSuccess (''Table cell style updated'') (UpdateData result))))"

definition googledocs_update_table_row_style_handler ::
  "client \<Rightarrow> string \<Rightarrow> int \<Rightarrow> int list \<Rightarrow> jsval \<Rightarrow> string \<Rightarrow> http_request list \<Rightarrow> outcome \<times> http_request list" where
  "googledocs_update_table_row_style_handler c documentId tableStartIndex rowIndices tableRowStyle fields' log =
     try_catch (then_return (updateTableRowStyle c documentId tableStartIndex rowIndices tableRowStyle fields' log)
       (\<lambda>result. Inr (formatSuccess (''Table row style updated for rows: '' @ join '', '' (map show_int rowIndices)) (UpdateData result))))"

definition googledocs_update_table_column_properties_handler ::
  "client \<Rightarrow> string \<Rightarrow> int \<Rightarrow> int list \<Rightarrow> jsval \<Rightarrow> string \<Rightarrow> http_request list \<Rightarrow> outcome \<times> http_request list" where
  "googledocs_update_table_column_properties_handler c documentId tableStartIndex columnIndices tableColumnProperties fields' log =
     try_catch (then_return (updateTableColumnProperties c documentId tableStartIndex columnIndices
                  tableColumnProperties fields' log)
       (\<lambda>result. Inr (formatSuccess (''Table column properties updated for columns: ''
          @ join '', '' (map show_int columnIndices)) (UpdateData result))))"

definition googledocs_pin_table_header_rows_handler ::
  "client \<Rightarrow> string \<Rightarrow> int \<Rightarrow> int \<Rightarrow> http_request list \<Rightarrow> outcome \<times> http_request list" where
  "googledocs_pin_table_header_rows_handler c documentId tableStartIndex pinnedHeaderRowsCount log =
     try_catch (then_return (pinTableHeaderRows c documentId tableStartIndex pinnedHeaderRowsCount log)
       (\<lambda>result. Inr (formatSuccess (''Pinned '' @ show_int pinnedHeaderRowsCount @ '' header row(s)'') (UpdateData result))))"

subsection \<open>Image tools\<close>

definition googledocs_insert_image_handler ::
  "client \<Rightarrow> string \<Rightarrow> string \<Rightarrow> int \<Rightarrow> int option \<Rightarrow> int option \<Rightarrow> http_request list \<Rightarrow> outcome \<times> http_request list" where
  "googledocs_insert_image_handler c documentId uri index width height log =
     try_catch (then_return (insertInlineImage c documentId uri index width height log)
       (\<lambda>result.
          case first_reply result of
            Inl e \<Rightarrow> Inl e
          | Inr r \<Rightarrow>
              Inr (formatSuccess (''Image inserted at index '' @ show_int index @ id_suffix (Option.bind r reply_insertInlineImage))
                     (UpdateData result))))"

definition googledocs_replace_image_handler ::
  "client \<Rightarrow> string \<Rightarrow> string \<Rightarrow> string \<Rightarrow> http_request list \<Rightarrow> outcome \<times> http_request list" where
  "googledocs_replace_image_handler c documentId imageObjectId uri log =
     try_catch (then_return (replaceImage c documentId imageObjectId uri log)
       (\<lambda>result. Inr (formatSuccess (''Image '' @ imageObjectId @ '' replaced'') (UpdateData result))))"

definition googledocs_delete_positioned_object_handler ::
  "client \<Rightarrow> string \<Rightarrow> string \<Rightarrow> http_request list \<Rightarrow> outcome \<times> http_request list" where
  "googledocs_delete_positioned_object_handler c documentId objectId log =
     try_catch (then_return (deletePositionedObject c documentId objectId log)
       (\<lambda>result. Inr (formatSuccess (''Positioned object '' @ objectId @ '' deleted'') (UpdateData result))))"

subsection \<open>List tools\<close>

definition googledocs_create_bullets_handler ::
  "client \<Rightarrow> string \<Rightarrow> int \<Rightarrow> int \<Rightarrow> string option \<Rightarrow> http_request list \<Rightarrow> outcome \<times> http_request list" where
  "googledocs_create_bullets_handler c documentId startIndex endIndex bulletPreset log =
     try_catch (then_return (createParagraphBullets c documentId startIndex endIndex bulletPreset log)
       (\<lambda>result. Inr (formatSuccess (''Bullets created from '' @ show_int startIndex @ '' to '' @ show_int endIndex) (UpdateData result))))"

definition googledocs_delete_bullets_handler ::
  "client \<Rightarrow> string \<Rightarrow> int \<Rightarrow> int \<Rightarrow> http_request list \<Rightarrow> outcome \<times> http_request list" where
  "googledocs_delete_bullets_handler c documentId startIndex endIndex log =
     try_catch (then_return (deleteParagraphBullets c documentId startIndex endIndex log)
       (\<lambda>result. Inr (formatSuccess (''Bullets removed from '' @ show_int startIndex @ '' to '' @ show_int endIndex) (UpdateData result))))"

subsection \<open>Named range tools\<close>

definition googledocs_create_named_range_handler ::
  "client \<Rightarrow> string \<Rightarrow> string \<Rightarrow> int \<Rightarrow> int \<Rightarrow> http_request list \<Rightarrow> outcome \<times> http_request list" where
  "googledocs_create_named_range_handler c documentId name startIndex endIndex log =
     try_catch (then_return (createNamedRange c documentId name startIndex endIndex log)
       (\<lambda>result.
          case first_reply result of
            Inl e \<Rightarrow> Inl e
          | Inr r \<Rightarrow>
              Inr (formatSuccess (''Named range '' @ dq @ name @ dq @ '' created'' @ id_suffix (Option.bind r reply_createNamedRange))
                     (UpdateData result))))"

text \<open>
  The two handlers that test their arguments before the \<^verbatim>\<open>try\<close>:
  \<^verbatim>\<open>if (!namedRangeId && !name)\<close> returns the \<^verbatim>\<open>{ error: ... }\<close> result at once.
  A template literal renders an absent \<^verbatim>\<open>name\<close> as \<^verbatim>\<open>undefined\<close>.
\<close>

definition googledocs_delete_named_range_handler ::
  "client \<Rightarrow> string \<Rightarrow> string option \<Rightarrow> string option \<Rightarrow> http_request list \<Rightarrow> outcome \<times> http_request list" where
  "googledocs_delete_named_range_handler c documentId namedRangeId name log =
     (if \<not> truthy (opt_str namedRangeId) \<and> \<not> truthy (opt_str name)
      then (Returned \<lparr>result_content = Rejection ''Either namedRangeId or name must be provided'',
                      isError = True\<rparr>, log)
      else try_catch (then_return (deleteNamedRange c documentId namedRangeId name log)
             (\<lambda>result. Inr (formatSuccess
                (''Named range ''
                   @ (if truthy (opt_str namedRangeId) then ''ID: '' @ the namedRangeId
                      else dq @ (case name of None \<Rightarrow> ''undefined'' | Some n \<Rightarrow> n) @ dq)
                   @ '' deleted'')
                (UpdateData result)))))"

definition googledocs_replace_named_range_content_handler ::
  "client \<Rightarrow> string \<Rightarrow> string \<Rightarrow> string option \<Rightarrow> string option \<Rightarrow> http_request list \<Rightarrow>
   outcome \<times> http_request list" where
  "googledocs_replace_named_range_content_handler c documentId text namedRangeId namedRangeName log =
     (if \<not> truthy (opt_str namedRangeId) \<and> \<not> truthy (opt_str namedRangeName)
      then (Returned \<lparr>result_content =
                        Rejection ''Either namedRangeId or namedRangeName must be provided'',
                      isError = True\<rparr>, log)
      else try_catch (then_return
             (replaceNamedRangeContent c documentId text namedRangeId namedRangeName log)
             (\<lambda>result. Inr (formatSuccess
                (''Named range content replaced with '' @ dq @ take 50 text
                   @ (if length text > 50 then ''...'' else []) @ dq)
                (UpdateData result)))))"

subsection \<open>Header, footer and footnote tools\<close>

definition googledocs_create_header_handler ::
  "client \<Rightarrow> string \<Rightarrow> string \<Rightarrow> int option \<Rightarrow> http_request list \<Rightarrow> outcome \<times> http_request list" where
  "googledocs_create_header_handler c documentId type sectionBreakIndex log =
     try_catch (then_return (createHeader c documentId type sectionBreakIndex log)
       (\<lambda>result.
          case first_reply result of
            Inl e \<Rightarrow> Inl e
          | Inr r \<Rightarrow>
              Inr (formatSuccess (''Header created'' @ id_suffix (Option.bind r reply_createHeader))
                     (UpdateData result))))"

definition googledocs_create_footer_handler ::
  "client \<Rightarrow> string \<Rightarrow> string \<Rightarrow> int option \<Rightarrow> http_request list \<Rightarrow> outcome \<times> http_request list" where
  "googledocs_create_footer_handler c documentId type sectionBreakIndex log =
     try_catch (then_return (createFooter c documentId type sectionBreakIndex log)
       (\<lambda>result.
          case first_reply result of
            Inl e \<Rightarrow> Inl e
          | Inr r \<Rightarrow>
              Inr (formatSuccess (''Footer created'' @ id_suffix (Option.bind r reply_createFooter))
                     (UpdateData result))))"

definition googledocs_delete_header_handler ::
  "client \<Rightarrow> string \<Rightarrow> string \<Rightarrow> http_request list \<Rightarrow> outcome \<times> http_request list" where
  "googledocs_delete_header_handler c documentId headerId log =
     try_catch (then_return (deleteHeader c documentId headerId log)
       (\<lambda>result. Inr (formatSuccess (''Header '' @ headerId @ '' deleted'') (UpdateData result))))"

definition googledocs_delete_footer_handler ::
  "client \<Rightarrow> string \<Rightarrow> string \<Rightarrow> http_request list \<Rightarrow> outcome \<times> http_request list" where
  "googledocs_delete_footer_handler c documentId footerId log =
     try_catch (then_return (deleteFooter c documentId footerId log)
       (\<lambda>result. Inr (formatSuccess (''Footer '' @ footerId @ '' deleted'') (UpdateData result))))"

definition googledocs_create_footnote_handler ::
  "client \<Rightarrow> string \<Rightarrow> int \<Rightarrow> http_request list \<Rightarrow> outcome \<times> http_request list" where
  "googledocs_create_footnote_handler c documentId index log =
     try_catch (then_return (createFootnote c documentId index log)
       (\<lambda>result.
          case first_reply result of
            Inl e \<Rightarrow> Inl e
          | Inr r \<Rightarrow>
              Inr (formatSuccess (''Footnote created at index '' @ show_int index @ id_suffix (Option.bind r reply_createFootnote))
                     (UpdateData result))))"

section \<open>The tool registry\<close>

text \<open>
  A call of one of the forty registered tools, with the arguments as the caller gives them:
  a field that the schema marks \<^verbatim>\<open>.optional()\<close> or gives a \<^verbatim>\<open>.default(...)\<close> is an
  option. The types are those of the schema (\<^verbatim>\<open>z.string()\<close>, \<^verbatim>\<open>z.number()\<close>,
  \<^verbatim>\<open>z.boolean()\<close>, \<^verbatim>\<open>z.array(...)\<close>); a \<^verbatim>\<open>z.record(z.string(), z.unknown())\<close>
  field is any value, checked to be an object. The constructors carry the registered names,
  grouped as the registration functions group them; \<^verbatim>\<open>googledocs_test_connection\<close> is
  registered by the server itself.
\<close>

datatype document_tool =
    googledocs_create string
  | googledocs_get string
  | googledocs_batch_update string "jsval list"

datatype content_tool =
    googledocs_insert_text string string int
  | googledocs_delete_content string int int
  | googledocs_replace_text string string string "bool option"
  | googledocs_append_text string string
  | googledocs_insert_page_break string int
  | googledocs_insert_section_break string int "string option"

datatype formatting_tool =
    googledocs_format_text string int int "bool option" "bool option" "bool option" "bool option" "int option" "string option"
  | googledocs_update_text_style string int int jsval string
  | googledocs_format_paragraph string int int "string option" "string option" "int option" "int option" "int option"
  | googledocs_update_paragraph_style string int int jsval string
  | googledocs_update_document_style string jsval string
  | googledocs_update_section_style string int int jsval string

datatype table_tool =
    googledocs_insert_table string int int int
  | googledocs_insert_table_row string int int "int option" "bool option"
  | googledocs_insert_table_column string int "int option" int "bool option"
  | googledocs_delete_table_row string int int "int option"
  | googledocs_delete_table_column string int "int option" int
  | googledocs_merge_table_cells string int int int int int
  | googledocs_unmerge_table_cells string int int int int int
  | googledocs_update_table_cell_style string int int int "int option" "int option" jsval string
  | googledocs_update_table_row_style string int "int list" jsval string
  | googledocs_update_table_column_properties string int "int list" jsval string
  | googledocs_pin_table_header_rows string int int

datatype image_tool =
    googledocs_insert_image string string int "int option" "int option"
  | googledocs_replace_image string string string
  | googledocs_delete_positioned_object string string

datatype list_tool =
    googledocs_create_bullets string int int "string option"
  | googledocs_delete_bullets string int int

datatype named_range_tool =
    googledocs_create_named_range string string int int
  | googledocs_delete_named_range string "string option" "string option"
  | googledocs_replace_named_range_content string string "string option" "string option"

datatype header_footer_tool =
    googledocs_create_header string "string option" "int option"
  | googledocs_create_footer string "string option" "int option"
  | googledocs_delete_header string string
  | googledocs_delete_footer string string
  | googledocs_create_footnote string int

datatype tool_call =
    document_tool document_tool
  | content_tool content_tool
  | formatting_tool formatting_tool
  | table_tool table_tool
  | image_tool image_tool
  | list_tool list_tool
  | named_range_tool named_range_tool
  | header_footer_tool header_footer_tool
  | googledocs_test_connection

text \<open>The value lists of the \<^verbatim>\<open>z.enum([...])\<close> fields.\<close>

definition sectionType_values :: "string list" where
  "sectionType_values = [''CONTINUOUS'', ''NEXT_PAGE'']"

definition alignment_values :: "string list" where
  "alignment_values = [''START'', ''CENTER'', ''END'', ''JUSTIFIED'']"

definition headingType_values :: "string list" where
  "headingType_values =
     [''NORMAL_TEXT'', ''TITLE'', ''SUBTITLE'', ''HEADING_1'', ''HEADING_2'', ''HEADING_3'',
      ''HEADING_4'', ''HEADING_5'', ''HEADING_6'']"

definition bulletPreset_values :: "string list" where
  "bulletPreset_values =
     [''BULLET_DISC_CIRCLE_SQUARE'', ''BULLET_DIAMONDX_ARROW3D_SQUARE'', ''BULLET_CHECKBOX'',
      ''BULLET_ARROW_DIAMOND_DISC'', ''BULLET_STAR_CIRCLE_SQUARE'',
      ''BULLET_ARROW3D_CIRCLE_SQUARE'', ''BULLET_LEFTTRIANGLE_DIAMOND_DISC'',
      ''NUMBERED_DECIMAL_ALPHA_ROMAN'', ''NUMBERED_DECIMAL_ALPHA_ROMAN_PARENS'',
      ''NUMBERED_DECIMAL_NESTED'', ''NUMBERED_UPPERALPHA_ALPHA_ROMAN'',
      ''NUMBERED_UPPERROMAN_UPPERALPHA_DECIMAL'', ''NUMBERED_ZERODECIMAL_ALPHA_ROMAN'']"

definition headerFooterType_values :: "string list" where
  "headerFooterType_values = [''DEFAULT'']"

fun is_object :: "jsval \<Rightarrow> bool" where
  "is_object (JObj kvs) = True"
| "is_object v = False"

definition opt_ok :: "('a \<Rightarrow> bool) \<Rightarrow> 'a option \<Rightarrow> bool" where
  "opt_ok P x = (case x of None \<Rightarrow> True | Some v \<Rightarrow> P v)"

definition dflt :: "'a \<Rightarrow> 'a option \<Rightarrow> 'a" where
  "dflt d x = (case x of None \<Rightarrow> d | Some v \<Rightarrow> v)"

subsection \<open>Input schemas\<close>

text \<open>
  The input schema of each registration: the bounds (\<^verbatim>\<open>.min(n)\<close>, \<^verbatim>\<open>.positive()\<close>),
  enumerations and object checks it declares. \<^verbatim>\<open>.int()\<close> holds by the type of the
  field here. What counts as a URL for \<^verbatim>\<open>z.string().url()\<close> is the parameter
  \<open>is_url\<close>.
\<close>

primrec document_schema_ok :: "document_tool \<Rightarrow> bool" where
  "document_schema_ok (googledocs_create title) =
     (True)"
| "document_schema_ok (googledocs_get documentId) =
     (True)"
| "document_schema_ok (googledocs_batch_update documentId requests) =
     (list_all is_object requests)"

primrec content_schema_ok :: "content_tool \<Rightarrow> bool" where
  "content_schema_ok (googledocs_insert_text documentId text index) =
     (1 \<le> index)"
| "content_schema_ok (googledocs_delete_content documentId startIndex endIndex) =
     (1 \<le> startIndex \<and>
      1 \<le> endIndex)"
| "content_schema_ok (googledocs_replace_text documentId findText replaceText matchCase) =
     (True)"
| "content_schema_ok (googledocs_append_text documentId text) =
     (True)"
| "content_schema_ok (googledocs_insert_page_break documentId index) =
     (1 \<le> index)"
| "content_schema_ok (googledocs_insert_section_break documentId index sectionType) =
     (1 \<le> index \<and>
      opt_ok (\<lambda>v. v \<in> set sectionType_values) sectionType)"

primrec formatting_schema_ok :: "formatting_tool \<Rightarrow> bool" where
  "formatting_schema_ok (googledocs_format_text documentId startIndex endIndex bold italic underline strikethrough fontSize fontFamily) =
     (1 \<le> startIndex \<and>
      1 \<le> endIndex \<and>
      opt_ok (\<lambda>v. 0 < v) fontSize)"
| "formatting_schema_ok (googledocs_update_text_style documentId startIndex endIndex textStyle fields') =
     (1 \<le> startIndex \<and>
      1 \<le> endIndex \<and>
      is_object textStyle)"
| "formatting_schema_ok (googledocs_format_paragraph documentId startIndex endIndex alignment headingType lineSpacing spaceAbove spaceBelow) =
     (1 \<le> startIndex \<and>
      1 \<le> endIndex \<and>
      opt_ok (\<lambda>v. v \<in> set alignment_values) alignment \<and>
      opt_ok (\<lambda>v. v \<in> set headingType_values) headingType \<and>
      opt_ok (\<lambda>v. 0 < v) lineSpacing \<and>
      opt_ok (\<lambda>v. 0 \<le> v) spaceAbove \<and>
      opt_ok (\<lambda>v. 0 \<le> v) spaceBelow)"
| "formatting_schema_ok (googledocs_update_paragraph_style documentId startIndex endIndex paragraphStyle fields') =
     (1 \<le> startIndex \<and>
      1 \<le> endIndex \<and>
      is_object paragraphStyle)"
| "formatting_schema_ok (googledocs_update_document_style documentId documentStyle fields') =
     (is_object documentStyle)"
| "formatting_schema_ok (googledocs_update_section_style documentId startIndex endIndex sectionStyle fields') =
     (1 \<le> startIndex \<and>
      1 \<le> endIndex \<and>
      is_object sectionStyle)"

primrec table_schema_ok :: "table_tool \<Rightarrow> bool" where
  "table_schema_ok (googledocs_insert_table documentId rows columns index) =
     (1 \<le> rows \<and>
      1 \<le> columns \<and>
      1 \<le> index)"
| "table_schema_ok (googledocs_insert_table_row documentId tableStartIndex rowIndex columnIndex insertBelow) =
     (1 \<le> tableStartIndex \<and>
      0 \<le> rowIndex \<and>
      opt_ok (\<lambda>v. 0 \<le> v) columnIndex)"
| "table_schema_ok (googledocs_insert_table_column documentId tableStartIndex rowIndex columnIndex insertRight) =
     (1 \<le> tableStartIndex \<and>
      opt_ok (\<lambda>v. 0 \<le> v) rowIndex \<and>
      0 \<le> columnIndex)"
| "table_schema_ok (googledocs_delete_table_row documentId tableStartIndex rowIndex columnIndex) =
     (1 \<le> tableStartIndex \<and>
      0 \<le> rowIndex \<and>
      opt_ok (\<lambda>v. 0 \<le> v) columnIndex)"
| "table_schema_ok (googledocs_delete_table_column documentId tableStartIndex rowIndex columnIndex) =
     (1 \<le> tableStartIndex \<and>
      opt_ok (\<lambda>v. 0 \<le> v) rowIndex \<and>
      0 \<le> columnIndex)"
| "table_schema_ok (googledocs_merge_table_cells documentId tableStartIndex rowIndex columnIndex rowSpan columnSpan) =
     (1 \<le> tableStartIndex \<and>
      0 \<le> rowIndex \<and>
      0 \<le> columnIndex \<and>
      1 \<le> rowSpan \<and>
      1 \<le> columnSpan)"
| "table_schema_ok (googledocs_unmerge_table_cells documentId tableStartIndex rowIndex columnIndex rowSpan columnSpan) =
     (1 \<le> tableStartIndex \<and>
      0 \<le> rowIndex \<and>
      0 \<le> columnIndex \<and>
      1 \<le> rowSpan \<and>
      1 \<le> columnSpan)"
| "table_schema_ok (googledocs_update_table_cell_style documentId tableStartIndex rowIndex columnIndex rowSpan columnSpan tableCellStyle fields') =
     (1 \<le> tableStartIndex \<and>
      0 \<le> rowIndex \<and>
      0 \<le> columnIndex \<and>
      opt_ok (\<lambda>v. 1 \<le> v) rowSpan \<and>
      opt_ok (\<lambda>v. 1 \<le> v) columnSpan \<and>
      is_object tableCellStyle)"
| "table_schema_ok (googledocs_update_table_row_style documentId tableStartIndex rowIndices tableRowStyle fields') =
     (1 \<le> tableStartIndex \<and>
      list_all (\<lambda>v. 0 \<le> v) rowIndices \<and>
      is_object tableRowStyle)"
| "table_schema_ok (googledocs_update_table_column_properties documentId tableStartIndex columnIndices tableColumnProperties fields') =
     (1 \<le> tableStartIndex \<and>
      list_all (\<lambda>v. 0 \<le> v) columnIndices \<and>
      is_object tableColumnProperties)"
| "table_schema_ok (googledocs_pin_table_header_rows documentId tableStartIndex pinnedHeaderRowsCount) =
     (1 \<le> tableStartIndex \<and>
      0 \<le> pinnedHeaderRowsCount)"

primrec image_schema_ok :: "(string \<Rightarrow> bool) \<Rightarrow> image_tool \<Rightarrow> bool" where
  "image_schema_ok is_url (googledocs_insert_image documentId uri index width height) =
     (is_url uri \<and>
      1 \<le> index \<and>
      opt_ok (\<lambda>v. 0 < v) width \<and>
      opt_ok (\<lambda>v. 0 < v) height)"
| "image_schema_ok is_url (googledocs_replace_image documentId imageObjectId uri) =
     (is_url uri)"
| "image_schema_ok is_url (googledocs_delete_positioned_object documentId objectId) =
     (True)"

primrec list_schema_ok :: "list_tool \<Rightarrow> bool" where
  "list_schema_ok (googledocs_create_bullets documentId startIndex endIndex bulletPreset) =
     (1 \<le> startIndex \<and>
      1 \<le> endIndex \<and>
      opt_ok (\<lambda>v. v \<in> set bulletPreset_values) bulletPreset)"
| "list_schema_ok (googledocs_delete_bullets documentId startIndex endIndex) =
     (1 \<le> startIndex \<and>
      1 \<le> endIndex)"

primrec named_range_schema_ok :: "named_range_tool \<Rightarrow> bool" where
  "named_range_schema_ok (googledocs_create_named_range documentId name startIndex endIndex) =
     (1 \<le> startIndex \<and>
      1 \<le> endIndex)"
| "named_range_schema_ok (googledocs_delete_named_range documentId namedRangeId name) =
     (True)"
| "named_range_schema_ok (googledocs_replace_named_range_content documentId text namedRangeId namedRangeName) =
     (True)"

primrec header_footer_schema_ok :: "header_footer_tool \<Rightarrow> bool" where
  "header_footer_schema_ok (googledocs_create_header documentId type sectionBreakIndex) =
     (opt_ok (\<lambda>v. v \<in> set headerFooterType_values) type \<and>
      opt_ok (\<lambda>v. 1 \<le> v) sectionBreakIndex)"
| "header_footer_schema_ok (googledocs_create_footer documentId type sectionBreakIndex) =
     (opt_ok (\<lambda>v. v \<in> set headerFooterType_values) type \<and>
      opt_ok (\<lambda>v. 1 \<le> v) sectionBreakIndex)"
| "header_footer_schema_ok (googledocs_delete_header documentId headerId) =
     (True)"
| "header_footer_schema_ok (googledocs_delete_footer documentId footerId) =
     (True)"
| "header_footer_schema_ok (googledocs_create_footnote documentId index) =
     (1 \<le> index)"

primrec schema_ok :: "(string \<Rightarrow> bool) \<Rightarrow> tool_call \<Rightarrow> bool" where
  "schema_ok is_url (document_tool t) = document_schema_ok t"
| "schema_ok is_url (content_tool t) = content_schema_ok t"
| "schema_ok is_url (formatting_tool t) = formatting_schema_ok t"
| "schema_ok is_url (table_tool t) = table_schema_ok t"
| "schema_ok is_url (image_tool t) = image_schema_ok is_url t"
| "schema_ok is_url (list_tool t) = list_schema_ok t"
| "schema_ok is_url (named_range_tool t) = named_range_schema_ok t"
| "schema_ok is_url (header_footer_tool t) = header_footer_schema_ok t"
| "schema_ok is_url googledocs_test_connection = True"

subsection \<open>Handlers by name\<close>

text \<open>
  The handler registered under each name, applied to the parsed arguments: a field with a
  \<^verbatim>\<open>.default(...)\<close> that the caller left out arrives as the default.
\<close>

primrec registerDocumentTools ::
  "client \<Rightarrow> document_tool \<Rightarrow> http_request list \<Rightarrow> outcome \<times> http_request list" where
  "registerDocumentTools c (googledocs_create title) =
     googledocs_create_handler c title"
| "registerDocumentTools c (googledocs_get documentId) =
     googledocs_get_handler c documentId"
| "registerDocumentTools c (googledocs_batch_update documentId requests) =
     googledocs_batch_update_handler c documentId requests"

primrec registerContentTools ::
  "client \<Rightarrow> content_tool \<Rightarrow> http_request list \<Rightarrow> outcome \<times> http_request list" where
  "registerContentTools c (googledocs_insert_text documentId text index) =
     googledocs_insert_text_handler c documentId text index"
| "registerContentTools c (googledocs_delete_content documentId startIndex endIndex) =
     googledocs_delete_content_handler c documentId startIndex endIndex"
| "registerContentTools c (googledocs_replace_text documentId findText replaceText matchCase) =
     googledocs_replace_text_handler c documentId findText replaceText (dflt False matchCase)"
| "registerContentTools c (googledocs_append_text documentId text) =
     googledocs_append_text_handler c documentId text"
| "registerContentTools c (googledocs_insert_page_break documentId index) =
     googledocs_insert_page_break_handler c documentId index"
| "registerContentTools c (googledocs_insert_section_break documentId index sectionType) =
     googledocs_insert_section_break_handler c documentId index (dflt ''NEXT_PAGE'' sectionType)"

primrec registerFormattingTools ::
  "client \<Rightarrow> formatting_tool \<Rightarrow> http_request list \<Rightarrow> outcome \<times> http_request list" where
  "registerFormattingTools c (googledocs_format_text documentId startIndex endIndex bold italic underline strikethrough fontSize fontFamily) =
     googledocs_format_text_handler c documentId startIndex endIndex bold italic underline strikethrough fontSize fontFamily"
| "registerFormattingTools c (googledocs_update_text_style documentId startIndex endIndex textStyle fields') =
     googledocs_update_text_style_handler c documentId startIndex endIndex textStyle fields'"
| "registerFormattingTools c (googledocs_format_paragraph documentId startIndex endIndex alignment headingType lineSpacing spaceAbove spaceBelow) =
     googledocs_format_paragraph_handler c documentId startIndex endIndex alignment headingType lineSpacing spaceAbove spaceBelow"
| "registerFormattingTools c (googledocs_update_paragraph_style documentId startIndex endIndex paragraphStyle fields') =
     googledocs_update_paragraph_style_handler c documentId startIndex endIndex paragraphStyle fields'"
| "registerFormattingTools c (googledocs_update_document_style documentId documentStyle fields') =
     googledocs_update_document_style_handler c documentId documentStyle fields'"
| "registerFormattingTools c (googledocs_update_section_style documentId startIndex endIndex sectionStyle fields') =
     googledocs_update_section_style_handler c documentId startIndex endIndex sectionStyle fields'"

primrec registerTableTools ::
  "client \<Rightarrow> table_tool \<Rightarrow> http_request list \<Rightarrow> outcome \<times> http_request list" where
  "registerTableTools c (googledocs_insert_table documentId rows columns index) =
     googledocs_insert_table_handler c documentId rows columns index"
| "registerTableTools c (googledocs_insert_table_row documentId tableStartIndex rowIndex columnIndex insertBelow) =
     googledocs_insert_table_row_handler c documentId tableStartIndex rowIndex (dflt 0 columnIndex) (dflt True insertBelow)"
| "registerTableTools c (googledocs_insert_table_column documentId tableStartIndex rowIndex columnIndex insertRight) =
     googledocs_insert_table_column_handler c documentId tableStartIndex (dflt 0 rowIndex) columnIndex (dflt True insertRight)"
| "registerTableTools c (googledocs_delete_table_row documentId tableStartIndex rowIndex columnIndex) =
     googledocs_delete_table_row_handler c documentId tableStartIndex rowIndex (dflt 0 columnIndex)"
| "registerTableTools c (googledocs_delete_table_column documentId tableStartIndex rowIndex columnIndex) =
     googledocs_delete_table_column_handler c documentId tableStartIndex (dflt 0 rowIndex) columnIndex"
| "registerTableTools c (googledocs_merge_table_cells documentId tableStartIndex rowIndex columnIndex rowSpan columnSpan) =
     googledocs_merge_table_cells_handler c documentId tableStartIndex rowIndex columnIndex rowSpan columnSpan"
| "registerTableTools c (googledocs_unmerge_table_cells documentId tableStartIndex rowIndex columnIndex rowSpan columnSpan) =
     googledocs_unmerge_table_cells_handler c documentId tableStartIndex rowIndex columnIndex rowSpan columnSpan"
| "registerTableTools c (googledocs_update_table_cell_style documentId tableStartIndex rowIndex columnIndex rowSpan columnSpan tableCellStyle fields') =
     googledocs_update_table_cell_style_handler c documentId tableStartIndex rowIndex columnIndex (dflt 1 rowSpan) (dflt 1 columnSpan) tableCellStyle fields'"
| "registerTableTools c (googledocs_update_table_row_style documentId tableStartIndex rowIndices tableRowStyle fields') =
     googledocs_update_table_row_style_handler c documentId tableStartIndex rowIndices tableRowStyle fields'"
| "registerTableTools c (googledocs_update_table_column_properties documentId tableStartIndex columnIndices tableColumnProperties fields') =
     googledocs_update_table_column_properties_handler c documentId tableStartIndex columnIndices tableColumnProperties fields'"
| "registerTableTools c (googledocs_pin_table_header_rows documentId tableStartIndex pinnedHeaderRowsCount) =
     googledocs_pin_table_header_rows_handler c documentId tableStartIndex pinnedHeaderRowsCount"

primrec registerImageTools ::
  "client \<Rightarrow> image_tool \<Rightarrow> http_request list \<Rightarrow> outcome \<times> http_request list" where
  "registerImageTools c (googledocs_insert_image documentId uri index width height) =
     googledocs_insert_image_handler c documentId uri index width height"
| "registerImageTools c (googledocs_replace_image documentId imageObjectId uri) =
     googledocs_replace_image_handler c documentId imageObjectId uri"
| "registerImageTools c (googledocs_delete_positioned_object documentId objectId) =
     googledocs_delete_positioned_object_handler c documentId objectId"

primrec registerListTools ::
  "client \<Rightarrow> list_tool \<Rightarrow> http_request list \<Rightarrow> outcome \<times> http_request list" where
  "registerListTools c (googledocs_create_bullets documentId startIndex endIndex bulletPreset) =
     googledocs_create_bullets_handler c documentId startIndex endIndex bulletPreset"
| "registerListTools c (googledocs_delete_bullets documentId startIndex endIndex) =
     googledocs_delete_bullets_handler c documentId startIndex endIndex"

primrec registerNamedRangeTools ::
  "client \<Rightarrow> named_range_tool \<Rightarrow> http_request list \<Rightarrow> outcome \<times> http_request list" where
  "registerNamedRangeTools c (googledocs_create_named_range documentId name startIndex endIndex) =
     googledocs_create_named_range_handler c documentId name startIndex endIndex"
| "registerNamedRangeTools c (googledocs_delete_named_range documentId namedRangeId name) =
     googledocs_delete_named_range_handler c documentId namedRangeId name"
| "registerNamedRangeTools c (googledocs_replace_named_range_content documentId text namedRangeId namedRangeName) =
     googledocs_replace_named_range_content_handler c documentId text namedRangeId namedRangeName"

primrec registerHeaderFooterTools ::
  "client \<Rightarrow> header_footer_tool \<Rightarrow> http_request list \<Rightarrow> outcome \<times> http_request list" where
  "registerHeaderFooterTools c (googledocs_create_header documentId type sectionBreakIndex) =
     googledocs_create_header_handler c documentId (dflt ''DEFAULT'' type) sectionBreakIndex"
| "registerHeaderFooterTools c (googledocs_create_footer documentId type sectionBreakIndex) =
     googledocs_create_footer_handler c documentId (dflt ''DEFAULT'' type) sectionBreakIndex"
| "registerHeaderFooterTools c (googledocs_delete_header documentId headerId) =
     googledocs_delete_header_handler c documentId headerId"
| "registerHeaderFooterTools c (googledocs_delete_footer documentId footerId) =
     googledocs_delete_footer_handler c documentId footerId"
| "registerHeaderFooterTools c (googledocs_create_footnote documentId index) =
     googledocs_create_footnote_handler c documentId index"

primrec run_handler ::
  "client \<Rightarrow> tool_call \<Rightarrow> http_request list \<Rightarrow> outcome \<times> http_request list" where
  "run_handler c (document_tool t) = registerDocumentTools c t"
| "run_handler c (content_tool t) = registerContentTools c t"
| "run_handler c (formatting_tool t) = registerFormattingTools c t"
| "run_handler c (table_tool t) = registerTableTools c t"
| "run_handler c (image_tool t) = registerImageTools c t"
| "run_handler c (list_tool t) = registerListTools c t"
| "run_handler c (named_range_tool t) = registerNamedRangeTools c t"
| "run_handler c (header_footer_tool t) = registerHeaderFooterTools c t"
| "run_handler c googledocs_test_connection = googledocs_test_connection_handler c"

text \<open>
  Modelled from the spec: the dispatch of a tool call by the MCP server library behind
  \<^verbatim>\<open>server.tool\<close>, which is not among the sources. The spec: the declared input schema
  is validated before the handler runs; on validation failure the caller receives a
  structured rejection before any network call is attempted.
\<close>

definition call_tool ::
  "(string \<Rightarrow> bool) \<Rightarrow> client \<Rightarrow> tool_call \<Rightarrow> http_request list \<Rightarrow> outcome \<times> http_request list" where
  "call_tool is_url c call log =
     (if schema_ok is_url call then run_handler c call log else (InvalidParams, log))"

section \<open>The client interface as data\<close>

text \<open>
  The methods of the interface \<^verbatim>\<open>GoogleDocsClient\<close>, one constructor for each with its
  arguments, so that a statement can range over every method. \<open>log_after\<close> runs the method
  and gives the requests issued once it has settled, whatever it returned or threw.
\<close>

datatype document_method =
    TestConnection
  | CreateDocument string
  | GetDocument string
  | BatchUpdate string "jsval list"

datatype text_method =
    InsertText string string int
  | DeleteContent string int int
  | ReplaceAllText string string string bool
  | AppendText string string

datatype style_method =
    UpdateTextStyle string int int jsval string
  | UpdateParagraphStyle string int int jsval string
  | CreateParagraphBullets string int int "string option"
  | DeleteParagraphBullets string int int
  | UpdateDocumentStyle string jsval string
  | UpdateSectionStyle string int int jsval string

datatype named_range_method =
    CreateNamedRange string string int int
  | DeleteNamedRange string "string option" "string option"
  | ReplaceNamedRangeContent string string "string option" "string option"

datatype table_method =
    InsertTable string int int int
  | InsertTableRow string int int int bool
  | InsertTableColumn string int int int bool
  | DeleteTableRow string int int int
  | DeleteTableColumn string int int int
  | MergeTableCells string int int int int int
  | UnmergeTableCells string int int int int int
  | UpdateTableCellStyle string int int int int int jsval string
  | UpdateTableRowStyle string int "int list" jsval string
  | UpdateTableColumnProperties string int "int list" jsval string
  | PinTableHeaderRows string int int

datatype insert_method =
    InsertInlineImage string string int "int option" "int option"
  | ReplaceImage string string string
  | DeletePositionedObject string string
  | InsertPageBreak string int
  | InsertSectionBreak string int string

datatype header_footer_method =
    CreateHeader string string "int option"
  | CreateFooter string string "int option"
  | DeleteHeader string string
  | DeleteFooter string string
  | CreateFootnote string int

datatype client_call =
    DocumentMethod document_method
  | TextMethod text_method
  | StyleMethod style_method
  | Named_rangeMethod named_range_method
  | TableMethod table_method
  | InsertMethod insert_method
  | Header_footerMethod header_footer_method

primrec document_method_log :: "client \<Rightarrow> document_method \<Rightarrow> http_request list \<Rightarrow> http_request list" where
  "document_method_log c TestConnection log =
     snd (testConnection c log)"
| "document_method_log c (CreateDocument title) log =
     snd (createDocument c title log)"
| "document_method_log c (GetDocument documentId) log =
     snd (getDocument c documentId log)"
| "document_method_log c (BatchUpdate documentId requests) log =
     snd (batchUpdate c documentId requests log)"

primrec text_method_log :: "client \<Rightarrow> text_method \<Rightarrow> http_request list \<Rightarrow> http_request list" where
  "text_method_log c (InsertText documentId text index) log =
     snd (insertText c documentId text index log)"
| "text_method_log c (DeleteContent documentId startIndex endIndex) log =
     snd (deleteContent c documentId startIndex endIndex log)"
| "text_method_log c (ReplaceAllText documentId findText replaceText matchCase) log =
     snd (replaceAllText c documentId findText replaceText matchCase log)"
| "text_method_log c (AppendText documentId text) log =
     snd (appendText c documentId text log)"

primrec style_method_log :: "client \<Rightarrow> style_method \<Rightarrow> http_request list \<Rightarrow> http_request list" where
  "style_method_log c (UpdateTextStyle documentId startIndex endIndex textStyle fields') log =
     snd (updateTextStyle c documentId startIndex endIndex textStyle fields' log)"
| "style_method_log c (UpdateParagraphStyle documentId startIndex endIndex paragraphStyle fields') log =
     snd (updateParagraphStyle c documentId startIndex endIndex paragraphStyle fields' log)"
| "style_method_log c (CreateParagraphBullets documentId startIndex endIndex bulletPreset) log =
     snd (createParagraphBullets c documentId startIndex endIndex bulletPreset log)"
| "style_method_log c (DeleteParagraphBullets documentId startIndex endIndex) log =
     snd (deleteParagraphBullets c documentId startIndex endIndex log)"
| "style_method_log c (UpdateDocumentStyle documentId documentStyle fields') log =
     snd (updateDocumentStyle c documentId documentStyle fields' log)"
| "style_method_log c (UpdateSectionStyle documentId startIndex endIndex sectionStyle fields') log =
     snd (updateSectionStyle c documentId startIndex endIndex sectionStyle fields' log)"

primrec named_range_method_log :: "client \<Rightarrow> named_range_method \<Rightarrow> http_request list \<Rightarrow> http_request list" where
  "named_range_method_log c (CreateNamedRange documentId name startIndex endIndex) log =
     snd (createNamedRange c documentId name startIndex endIndex log)"
| "named_range_method_log c (DeleteNamedRange documentId namedRangeId name) log =
     snd (deleteNamedRange c documentId namedRangeId name log)"
| "named_range_method_log c (ReplaceNamedRangeContent documentId text namedRangeId namedRangeName) log =
     snd (replaceNamedRangeContent c documentId text namedRangeId namedRangeName log)"

primrec table_method_log :: "client \<Rightarrow> table_method \<Rightarrow> http_request list \<Rightarrow> http_request list" where
  "table_method_log c (InsertTable documentId rows columns index) log =
     snd (insertTable c documentId rows columns index log)"
| "table_method_log c (InsertTableRow documentId tableStartIndex rowIndex columnIndex insertBelow) log =
     snd (insertTableRow c documentId tableStartIndex rowIndex columnIndex insertBelow log)"
| "table_method_log c (InsertTableColumn documentId tableStartIndex rowIndex columnIndex insertRight) log =
     snd (insertTableColumn c documentId tableStartIndex rowIndex columnIndex insertRight log)"
| "table_method_log c (DeleteTableRow documentId tableStartIndex rowIndex columnIndex) log =
     snd (deleteTableRow c documentId tableStartIndex rowIndex columnIndex log)"
| "table_method_log c (DeleteTableColumn documentId tableStartIndex rowIndex columnIndex) log =
     snd (deleteTableColumn c documentId tableStartIndex rowIndex columnIndex log)"
| "table_method_log c (MergeTableCells documentId tableStartIndex rowIndex columnIndex rowSpan columnSpan) log =
     snd (mergeTableCells c documentId tableStartIndex rowIndex columnIndex rowSpan columnSpan log)"
| "table_method_log c (UnmergeTableCells documentId tableStartIndex rowIndex columnIndex rowSpan columnSpan) log =
     snd (unmergeTableCells c documentId tableStartIndex rowIndex columnIndex rowSpan columnSpan log)"
| "table_method_log c (UpdateTableCellStyle documentId tableStartIndex rowIndex columnIndex rowSpan columnSpan tableCellStyle fields') log =
     snd (updateTableCellStyle c documentId tableStartIndex rowIndex columnIndex rowSpan columnSpan tableCellStyle fields' log)"
| "table_method_log c (UpdateTableRowStyle documentId tableStartIndex rowIndices tableRowStyle fields') log =
     snd (updateTableRowStyle c documentId tableStartIndex rowIndices tableRowStyle fields' log)"
| "table_method_log c (UpdateTableColumnProperties documentId tableStartIndex columnIndices tableColumnProperties fields') log =
     snd (updateTableColumnProperties c documentId tableStartIndex columnIndices tableColumnProperties fields' log)"
| "table_method_log c (PinTableHeaderRows documentId tableStartIndex pinnedHeaderRowsCount) log =
     snd (pinTableHeaderRows c documentId tableStartIndex pinnedHeaderRowsCount log)"

primrec insert_method_log :: "client \<Rightarrow> insert_method \<Rightarrow> http_request list \<Rightarrow> http_request list" where
  "insert_method_log c (InsertInlineImage documentId uri index width height) log =
     snd (insertInlineImage c documentId uri index width height log)"
| "insert_method_log c (ReplaceImage documentId imageObjectId uri) log =
     snd (replaceImage c documentId imageObjectId uri log)"
| "insert_method_log c (DeletePositionedObject documentId objectId) log =
     snd (deletePositionedObject c documentId objectId log)"
| "insert_method_log c (InsertPageBreak documentId index) log =
     snd (insertPageBreak c documentId index log)"
| "insert_method_log c (InsertSectionBreak documentId index sectionType) log =
     snd (insertSectionBreak c documentId index sectionType log)"

primrec header_footer_method_log :: "client \<Rightarrow> header_footer_method \<Rightarrow> http_request list \<Rightarrow> http_request list" where
  "header_footer_method_log c (CreateHeader documentId type sectionBreakIndex) log =
     snd (createHeader c documentId type sectionBreakIndex log)"
| "header_footer_method_log c (CreateFooter documentId type sectionBreakIndex) log =
     snd (createFooter c documentId type sectionBreakIndex log)"
| "header_footer_method_log c (DeleteHeader documentId headerId) log =
     snd (deleteHeader c documentId headerId log)"
| "header_footer_method_log c (DeleteFooter documentId footerId) log =
     snd (deleteFooter c documentId footerId log)"
| "header_footer_method_log c (CreateFootnote documentId index) log =
     snd (createFootnote c documentId index log)"

primrec log_after :: "client \<Rightarrow> client_call \<Rightarrow> http_request list \<Rightarrow> http_request list" where
  "log_after c (DocumentMethod m) log = document_method_log c m log"
| "log_after c (TextMethod m) log = text_method_log c m log"
| "log_after c (StyleMethod m) log = style_method_log c m log"
| "log_after c (Named_rangeMethod m) log = named_range_method_log c m log"
| "log_after c (TableMethod m) log = table_method_log c m log"
| "log_after c (InsertMethod m) log = insert_method_log c m log"
| "log_after c (Header_footerMethod m) log = header_footer_method_log c m log"

text \<open>The requests a call adds to those issued before it.\<close>

definition issued :: "client \<Rightarrow> client_call \<Rightarrow> http_request list \<Rightarrow> http_request list" where
  "issued c call log = drop (length log) (log_after c call log)"

text \<open>
  A request changes remote state when it is not a \<^verbatim>\<open>GET\<close>. It goes through
  \<^verbatim>\<open>batchUpdate\<close> when it is the \<^verbatim>\<open>POST\<close> to the document's
  \<^verbatim>\<open>:batchUpdate\<close> path whose body is \<^verbatim>\<open>{ requests: [...] }\<close>.
\<close>

definition mutating :: "http_request \<Rightarrow> bool" where
  "mutating rq = (req_method rq \<noteq> GET)"

fun is_requests_body :: "jsval option \<Rightarrow> bool" where
  "is_requests_body (Some (JObj [(k, JArr ops)])) = (k = ''requests'')"
| "is_requests_body b = False"

fun is_batchUpdate_endpoint :: "endpoint \<Rightarrow> bool" where
  "is_batchUpdate_endpoint (DocumentBatchUpdate documentId) = True"
| "is_batchUpdate_endpoint ep = False"

definition through_batchUpdate :: "http_request \<Rightarrow> bool" where
  "through_batchUpdate rq =
     (req_method rq = POST \<and> is_batchUpdate_endpoint (req_endpoint rq) \<and>
      is_requests_body (req_body rq))"

text \<open>The two methods that reach \<^verbatim>\<open>createDocument\<close>.\<close>

fun creates_document :: "client_call \<Rightarrow> bool" where
  "creates_document (DocumentMethod (CreateDocument title)) = True"
| "creates_document (DocumentMethod TestConnection) = True"
| "creates_document call = False"

fun is_getDocument :: "client_call \<Rightarrow> bool" where
  "is_getDocument (DocumentMethod (GetDocument documentId)) = True"
| "is_getDocument call = False"

section \<open>Example data\<close>

text \<open>
  A tenant with a token, and a remote service that answers every document request with a
  document whose last content block ends at index 50 and every batch update with an empty
  reply list.
\<close>

definition example_document :: document where
  "example_document =
     \<lparr>doc_documentId = ''doc1'', doc_title = ''Notes'',
      doc_body = Some \<lparr>body_content = Some
        [\<lparr>elem_startIndex = None, elem_endIndex = Some 1\<rparr>,
         \<lparr>elem_startIndex = Some 1, elem_endIndex = Some 50\<rparr>]\<rparr>\<rparr>"

definition example_update :: batch_update_response where
  "example_update = \<lparr>resp_documentId = ''doc1'', resp_replies = Some []\<rparr>"

definition example_client :: client where
  "example_client =
     \<lparr>credentials = \<lparr>accessToken = Some ''token''\<rparr>,
      fetch_document = (\<lambda>log rq. Responded
        \<lparr>status = 200, retry_after = None,
         body_any = Some (JObj [(''documentId'', JStr ''doc1''), (''title'', JStr ''Notes'')]),
         body_as = Some example_document\<rparr>),
      fetch_update = (\<lambda>log rq. Responded
        \<lparr>status = 200, retry_after = None,
         body_any = Some (JObj [(''documentId'', JStr ''doc1''), (''replies'', JArr [])]),
         body_as = Some example_update\<rparr>)\<rparr>"

definition example_headers :: "(string \<times> string) list" where
  "example_headers = [(''Authorization'', ''Bearer token''), (''Content-Type'', ''application/json'')]"

text \<open>A remote service that answers every request with status 429 and the given header.\<close>

definition rate_limiting :: "string option \<Rightarrow> 'a fetcher" where
  "rate_limiting h = (\<lambda>log rq. Responded
     \<lparr>status = 429, retry_after = h, body_any = None, body_as = None\<rparr>)"




section \<open>Predicates of the statements\<close>



section \<open>Requests issued\<close>

lemma request_log:
  "snd (request creds fetch m ep b log) =
     (case getAuthHeaders creds of
        Inl e \<Rightarrow> log
      | Inr hs \<Rightarrow> log @ [\<lparr>req_method = m, req_endpoint = ep, req_headers = hs, req_body = b\<rparr>])"
  by (simp add: request_def Let_def split: sum.splits fetch_result.splits)

lemma request_ok_headers:
  "request creds fetch m ep b log = (Inr v, log1) \<Longrightarrow>
     \<exists>hs. getAuthHeaders creds = Inr hs \<and>
       log1 = log @ [\<lparr>req_method = m, req_endpoint = ep, req_headers = hs, req_body = b\<rparr>]"
  by (auto simp add: request_def Let_def split: sum.splits fetch_result.splits)

lemma getDocument_log:
  "snd (getDocument c documentId log) =
     (case getAuthHeaders (credentials c) of
        Inl e \<Rightarrow> log
      | Inr hs \<Rightarrow> log @ [\<lparr>req_method = GET, req_endpoint = DocumentById documentId,
           req_headers = hs, req_body = None\<rparr>])"
  by (simp add: getDocument_def request_log)

lemma batchUpdate_log:
  "snd (batchUpdate c documentId requests log) =
     (case getAuthHeaders (credentials c) of
        Inl e \<Rightarrow> log
      | Inr hs \<Rightarrow> log @ [\<lparr>req_method = POST, req_endpoint = DocumentBatchUpdate documentId,
           req_headers = hs, req_body = Some (JObj [(''requests'', JArr requests)])\<rparr>])"
  by (simp add: batchUpdate_def request_log)

lemma batchUpdate_issued:
  "rq \<in> set (drop (length log) (snd (batchUpdate c documentId requests log))) \<Longrightarrow>
     through_batchUpdate rq"
  by (auto simp add: batchUpdate_log through_batchUpdate_def split: sum.splits)

lemma appendText_issued:
  assumes "rq \<in> set (drop (length log) (snd (appendText c documentId text log)))"
    and "mutating rq"
  shows "through_batchUpdate rq"
proof -
  obtain r log1 where g: "getDocument c documentId log = (r, log1)"
    by (cases "getDocument c documentId log")
  hence "log1 = (case getAuthHeaders (credentials c) of
        Inl e \<Rightarrow> log
      | Inr hs \<Rightarrow> log @ [\<lparr>req_method = GET, req_endpoint = DocumentById documentId,
           req_headers = hs, req_body = None\<rparr>])"
    using getDocument_log [of c documentId log] by simp
  with assms g show ?thesis
    by (auto simp add: appendText_def insertText_def batchUpdate_log Let_def
          through_batchUpdate_def mutating_def split: sum.splits option.splits)
qed



lemmas method_defs = insertText_def deleteContent_def replaceAllText_def
  updateTextStyle_def updateParagraphStyle_def createParagraphBullets_def
  deleteParagraphBullets_def createNamedRange_def deleteNamedRange_def
  replaceNamedRangeContent_def insertTable_def insertTableRow_def insertTableColumn_def
  deleteTableRow_def deleteTableColumn_def mergeTableCells_def unmergeTableCells_def
  updateTableCellStyle_def updateTableRowStyle_def updateTableColumnProperties_def
  pinTableHeaderRows_def insertInlineImage_def replaceImage_def deletePositionedObject_def
  insertPageBreak_def insertSectionBreak_def createHeader_def createFooter_def
  deleteHeader_def deleteFooter_def createFootnote_def updateDocumentStyle_def
  updateSectionStyle_def

section \<open>Error classification\<close>

lemma parseInt_digits: "parseInt ''30'' = Num 30"
  by (simp add: parseInt_def is_white_space_def is_digit_def digit_value_def)

lemma parseInt_http_date: "parseInt ''Wed, 21 Oct 2015 07:28:00 GMT'' = NaN"
  by (simp add: parseInt_def is_white_space_def is_digit_def)

lemma retry_after_numeric_or_absent:
  "handle_response \<lparr>status = 429, retry_after = Some ''30'', body_any = b, body_as = v\<rparr>
     = Inl (RateLimitError ''Rate limit exceeded'' (Num 30))"
  "handle_response \<lparr>status = 429, retry_after = None, body_any = b, body_as = v\<rparr>
     = Inl (RateLimitError ''Rate limit exceeded'' (Num 60))"
  "handle_response \<lparr>status = 429, retry_after = Some [], body_any = b, body_as = v\<rparr>
     = Inl (RateLimitError ''Rate limit exceeded'' (Num 60))"
  by (simp_all add: handle_response_def parseInt_digits)

text \<open>
  Claim C1. A response with status 429 makes the request helper raise a
  \<open>RateLimitError\<close> whose retry-after value is the number in the \<^verbatim>\<open>Retry-After\<close>
  header, and 60 when the header is absent or not numeric. The helper does so for a header
  of digits and for an absent or empty header (\<open>retry_after_numeric_or_absent\<close>). For a
  header that is present, not empty and not numeric, such as the HTTP-date form of
  \<^verbatim>\<open>Retry-After\<close>, the value it raises is \<^verbatim>\<open>NaN\<close>, not 60.
\<close>

theorem retry_after_http_date_is_NaN:
  "fst (request \<lparr>accessToken = Some ''token''\<rparr>
          (rate_limiting (Some ''Wed, 21 Oct 2015 07:28:00 GMT'')) GET (DocumentById ''doc1'')
          None [])
     = (Inl (RateLimitError ''Rate limit exceeded'' NaN) :: error + document option) \<and>
   NaN \<noteq> Num 60"
  by (simp add: request_def getAuthHeaders_def rate_limiting_def handle_response_def
        parseInt_http_date)



lemma api_error_message_top_level:
  "m \<noteq> [] \<Longrightarrow> api_error_message st (Some (JObj [(''message'', JStr m)])) = JStr m"
  by (simp add: api_error_message_def nullish_def)




section \<open>Appending text\<close>

text \<open>
  Claim C2. When the fetched document's last body content block has \<open>endIndex = e\<close>,
  \<open>appendText\<close> issues, after the read, exactly one request: the batch update whose
  single operation inserts the text at index \<open>max 1 (e - 1)\<close>. With \<open>e = 50\<close> the index
  is 49.
\<close>

theorem appendText_inserts_before_last_index:
  assumes "getDocument c documentId log = (Inr (Some doc), log1)"
    and "doc_body doc = Some b" and "body_content b = Some elems" and "elems \<noteq> []"
    and "elem_endIndex (last elems) = Some e"
  shows "\<exists>hs. getAuthHeaders (credentials c) = Inr hs \<and>
     snd (appendText c documentId text log) =
       log @ [\<lparr>req_method = GET, req_endpoint = DocumentById documentId, req_headers = hs,
                req_body = None\<rparr>,
              \<lparr>req_method = POST, req_endpoint = DocumentBatchUpdate documentId,
                req_headers = hs,
                req_body = Some (JObj [(''requests'', JArr
                  [JObj [(''insertText'', JObj [(''text'', JStr text),
                     (''location'', JObj [(''index'', JNum (max 1 (e - 1)))])])]])])\<rparr>]"
proof -
  from assms(1) obtain hs where hs: "getAuthHeaders (credentials c) = Inr hs"
    and l1: "log1 = log @ [\<lparr>req_method = GET, req_endpoint = DocumentById documentId,
        req_headers = hs, req_body = None\<rparr>]"
    unfolding getDocument_def by (blast dest: request_ok_headers)
  have le: "last_endIndex doc = Some e"
    using assms(2-5) by (simp add: last_endIndex_def)
  have mx: "max 1 ((if e = 0 then 1 else e) - 1) = max 1 (e - 1)"
    by (auto simp add: max_def)
  show ?thesis
    using hs l1 mx assms(1) le
    by (simp add: appendText_def insertText_def batchUpdate_log location_obj_def Let_def)
qed

theorem appendText_inserts_before_last_index_witness:
  "snd (appendText example_client ''doc1'' ''hi'' []) =
     [\<lparr>req_method = GET, req_endpoint = DocumentById ''doc1'', req_headers = example_headers,
       req_body = None\<rparr>,
      \<lparr>req_method = POST, req_endpoint = DocumentBatchUpdate ''doc1'',
       req_headers = example_headers,
       req_body = Some (JObj [(''requests'', JArr
         [JObj [(''insertText'', JObj [(''text'', JStr ''hi''),
            (''location'', JObj [(''index'', JNum 49)])])]])])\<rparr>]"
proof -
  have g: "getDocument example_client ''doc1'' [] =
      (Inr (Some example_document),
       [\<lparr>req_method = GET, req_endpoint = DocumentById ''doc1'', req_headers = example_headers,
         req_body = None\<rparr>])"
    by (simp add: getDocument_def request_def getAuthHeaders_def example_client_def
          example_headers_def handle_response_def ok_def)
  have b: "doc_body example_document = Some \<lparr>body_content = Some
        [\<lparr>elem_startIndex = None, elem_endIndex = Some 1\<rparr>,
         \<lparr>elem_startIndex = Some 1, elem_endIndex = Some 50\<rparr>]\<rparr>"
    by (simp add: example_document_def)
  have h: "getAuthHeaders (credentials example_client) = Inr example_headers"
    by (simp add: getAuthHeaders_def example_client_def example_headers_def)
  from appendText_inserts_before_last_index [OF g b, of _ 50 "''hi''"] h
  show ?thesis by simp
qed



section \<open>The mutating primitive\<close>

text \<open>
  Claim C3, as stated: every client method other than \<open>getDocument\<close> changes remote state
  only through \<open>batchUpdate\<close>. It fails for \<open>createDocument\<close>, which is not
  \<open>getDocument\<close> and sends its own \<^verbatim>\<open>POST\<close> to \<^verbatim>\<open>/documents\<close>.
\<close>

theorem createDocument_bypasses_batchUpdate:
  "\<not> is_getDocument (DocumentMethod (CreateDocument ''Draft'')) \<and>
   issued example_client (DocumentMethod (CreateDocument ''Draft'')) [] =
     [\<lparr>req_method = POST, req_endpoint = Documents, req_headers = example_headers,
       req_body = Some (JObj [(''title'', JStr ''Draft'')])\<rparr>] \<and>
   mutating \<lparr>req_method = POST, req_endpoint = Documents, req_headers = example_headers,
       req_body = Some (JObj [(''title'', JStr ''Draft'')])\<rparr> \<and>
   \<not> through_batchUpdate \<lparr>req_method = POST, req_endpoint = Documents,
       req_headers = example_headers, req_body = Some (JObj [(''title'', JStr ''Draft'')])\<rparr>"
  by (simp add: issued_def createDocument_def request_log getAuthHeaders_def
        example_client_def example_headers_def mutating_def through_batchUpdate_def)

text \<open>
  Claim C3, amended. Every client method other than \<open>createDocument\<close> and
  \<open>testConnection\<close> (which calls it) changes remote state only through \<open>batchUpdate\<close>:
  each request it issues that is not a \<^verbatim>\<open>GET\<close> is the \<^verbatim>\<open>POST\<close> of
  \<^verbatim>\<open>{ requests: [...] }\<close> to the document's \<^verbatim>\<open>:batchUpdate\<close> path.
\<close>

theorem mutations_go_through_batchUpdate:
  assumes "\<not> creates_document call"
  shows "\<forall>rq \<in> set (issued c call log). mutating rq \<longrightarrow> through_batchUpdate rq"
proof (cases call)
  case (DocumentMethod m)
  then show ?thesis using assms
    by (cases m) (auto simp add: issued_def getDocument_log mutating_def
          dest: batchUpdate_issued split: sum.splits)
next
  case (TextMethod m)
  then show ?thesis
    by (cases m) (auto simp add: issued_def method_defs
          dest: batchUpdate_issued appendText_issued)
next
  case (StyleMethod m)
  then show ?thesis
    by (cases m) (auto simp add: issued_def method_defs dest: batchUpdate_issued)
next
  case (Named_rangeMethod m)
  then show ?thesis
    by (cases m) (auto simp add: issued_def method_defs dest: batchUpdate_issued)
next
  case (TableMethod m)
  then show ?thesis
    by (cases m) (auto simp add: issued_def method_defs dest: batchUpdate_issued)
next
  case (InsertMethod m)
  then show ?thesis
    by (cases m) (auto simp add: issued_def method_defs dest: batchUpdate_issued)
next
  case (Header_footerMethod m)
  then show ?thesis
    by (cases m) (auto simp add: issued_def method_defs dest: batchUpdate_issued)
qed

theorem mutations_go_through_batchUpdate_witness:
  "\<not> creates_document (TextMethod (AppendText ''doc1'' ''hi'')) \<and>
   issued example_client (TextMethod (AppendText ''doc1'' ''hi'')) [] =
     [\<lparr>req_method = GET, req_endpoint = DocumentById ''doc1'', req_headers = example_headers,
       req_body = None\<rparr>,
      \<lparr>req_method = POST, req_endpoint = DocumentBatchUpdate ''doc1'',
       req_headers = example_headers,
       req_body = Some (JObj [(''requests'', JArr
         [JObj [(''insertText'', JObj [(''text'', JStr ''hi''),
            (''location'', JObj [(''index'', JNum 49)])])]])])\<rparr>] \<and>
   through_batchUpdate
     \<lparr>req_method = POST, req_endpoint = DocumentBatchUpdate ''doc1'',
      req_headers = example_headers,
      req_body = Some (JObj [(''requests'', JArr
        [JObj [(''insertText'', JObj [(''text'', JStr ''hi''),
           (''location'', JObj [(''index'', JNum 49)])])]])])\<rparr>"
proof -
  have n: "\<not> creates_document (TextMethod (AppendText ''doc1'' ''hi''))" by simp
  have l: "issued example_client (TextMethod (AppendText ''doc1'' ''hi'')) [] =
     [\<lparr>req_method = GET, req_endpoint = DocumentById ''doc1'', req_headers = example_headers,
       req_body = None\<rparr>,
      \<lparr>req_method = POST, req_endpoint = DocumentBatchUpdate ''doc1'',
       req_headers = example_headers,
       req_body = Some (JObj [(''requests'', JArr
         [JObj [(''insertText'', JObj [(''text'', JStr ''hi''),
            (''location'', JObj [(''index'', JNum 49)])])]])])\<rparr>]"
    by (simp add: issued_def appendText_def getDocument_def request_def getAuthHeaders_def
          example_client_def example_headers_def handle_response_def ok_def insertText_def
          batchUpdate_log last_endIndex_def example_document_def location_obj_def)
  from mutations_go_through_batchUpdate [OF n, of example_client "[]"] l
  have "through_batchUpdate
     \<lparr>req_method = POST, req_endpoint = DocumentBatchUpdate ''doc1'',
      req_headers = example_headers,
      req_body = Some (JObj [(''requests'', JArr
        [JObj [(''insertText'', JObj [(''text'', JStr ''hi''),
           (''location'', JObj [(''index'', JNum 49)])])]])])\<rparr>"
    by (simp add: mutating_def)
  with n l show ?thesis by simp
qed

section \<open>Handlers that return without calling the client\<close>

lemma truthy_opt_str: "truthy (opt_str x) = (x \<noteq> None \<and> x \<noteq> Some [])"
  by (cases x) (simp_all add: opt_str_def)

lemma delete_named_range_guard:
  "googledocs_delete_named_range_handler c documentId namedRangeId name log =
     (if \<not> truthy (opt_str namedRangeId) \<and> \<not> truthy (opt_str name)
      then (Returned \<lparr>result_content = Rejection ''Either namedRangeId or name must be provided'',
                      isError = True\<rparr>, log)
      else (case deleteNamedRange c documentId namedRangeId name log of
              (Inl e, log1) \<Rightarrow> (Returned (formatError e), log1)
            | (Inr result, log1) \<Rightarrow>
                (Returned (formatSuccess
                   (''Named range ''
                      @ (if truthy (opt_str namedRangeId) then ''ID: '' @ the namedRangeId
                         else dq @ (case name of None \<Rightarrow> ''undefined'' | Some n \<Rightarrow> n) @ dq)
                      @ '' deleted'')
                   (UpdateData result)), log1)))"
  by (simp add: googledocs_delete_named_range_handler_def try_catch_def then_return_def
        split: prod.splits sum.splits)

lemma replace_named_range_content_guard:
  "googledocs_replace_named_range_content_handler c documentId text namedRangeId namedRangeName log =
     (if \<not> truthy (opt_str namedRangeId) \<and> \<not> truthy (opt_str namedRangeName)
      then (Returned \<lparr>result_content =
                        Rejection ''Either namedRangeId or namedRangeName must be provided'',
                      isError = True\<rparr>, log)
      else (case replaceNamedRangeContent c documentId text namedRangeId namedRangeName log of
              (Inl e, log1) \<Rightarrow> (Returned (formatError e), log1)
            | (Inr result, log1) \<Rightarrow>
                (Returned (formatSuccess
                   (''Named range content replaced with '' @ dq @ take 50 text
                      @ (if length text > 50 then ''...'' else []) @ dq)
                   (UpdateData result)), log1)))"
  by (simp add: googledocs_replace_named_range_content_handler_def try_catch_def then_return_def
        split: prod.splits sum.splits)

text \<open>
  Claim C5, as stated: when at least one of the two identifier fields is provided, the
  handler goes on to call the client. It fails for a field that is provided as the empty
  string: the input passes the schema (\<^verbatim>\<open>z.string().optional()\<close>), yet
  \<^verbatim>\<open>!namedRangeId && !name\<close> holds, so the handler returns its own error result and
  issues no request, where the client call would have issued one.
\<close>

theorem empty_identifier_rejected_locally:
  "(Some [] :: string option) \<noteq> None \<and>
   schema_ok (\<lambda>u. True)
     (named_range_tool (googledocs_delete_named_range ''doc1'' (Some []) None)) \<and>
   call_tool (\<lambda>u. True) example_client
       (named_range_tool (googledocs_delete_named_range ''doc1'' (Some []) None)) [] =
     (Returned \<lparr>result_content = Rejection ''Either namedRangeId or name must be provided'',
                isError = True\<rparr>, []) \<and>
   snd (deleteNamedRange example_client ''doc1'' (Some []) None []) =
     [\<lparr>req_method = POST, req_endpoint = DocumentBatchUpdate ''doc1'',
       req_headers = example_headers,
       req_body = Some (JObj [(''requests'', JArr
          [JObj [(''deleteNamedRange'',
             JObj [(''namedRangeId'', JStr []), (''name'', JUndefined)])]])])\<rparr>]"
  by (simp add: call_tool_def googledocs_delete_named_range_handler_def opt_str_def
        deleteNamedRange_def batchUpdate_log getAuthHeaders_def example_client_def
        example_headers_def)

text \<open>
  Claim C5, amended. When each of the two identifier fields is absent or the empty string,
  the handlers of \<^verbatim>\<open>googledocs_delete_named_range\<close> and
  \<^verbatim>\<open>googledocs_replace_named_range_content\<close> return their own error result with its
  descriptive text and issue no request. When at least one field is a string that is not
  empty, they call the client and return what its outcome gives: the reshaped error, or a
  success result.
\<close>

theorem named_range_nonempty_identifier_required:
  "((namedRangeId = None \<or> namedRangeId = Some []) \<and> (name = None \<or> name = Some []) \<longrightarrow>
      googledocs_delete_named_range_handler c documentId namedRangeId name log =
        (Returned \<lparr>result_content = Rejection ''Either namedRangeId or name must be provided'',
                   isError = True\<rparr>, log)) \<and>
   ((namedRangeId \<noteq> None \<and> namedRangeId \<noteq> Some []) \<or> (name \<noteq> None \<and> name \<noteq> Some []) \<longrightarrow>
      (\<exists>message.
         googledocs_delete_named_range_handler c documentId namedRangeId name log =
           (case deleteNamedRange c documentId namedRangeId name log of
              (Inl e, log1) \<Rightarrow> (Returned (formatError e), log1)
            | (Inr result, log1) \<Rightarrow>
                (Returned (formatSuccess message (UpdateData result)), log1)))) \<and>
   ((namedRangeId = None \<or> namedRangeId = Some []) \<and>
    (namedRangeName = None \<or> namedRangeName = Some []) \<longrightarrow>
      googledocs_replace_named_range_content_handler c documentId text namedRangeId
          namedRangeName log =
        (Returned \<lparr>result_content =
                     Rejection ''Either namedRangeId or namedRangeName must be provided'',
                   isError = True\<rparr>, log)) \<and>
   ((namedRangeId \<noteq> None \<and> namedRangeId \<noteq> Some []) \<or>
    (namedRangeName \<noteq> None \<and> namedRangeName \<noteq> Some []) \<longrightarrow>
      (\<exists>message.
         googledocs_replace_named_range_content_handler c documentId text namedRangeId
             namedRangeName log =
           (case replaceNamedRangeContent c documentId text namedRangeId namedRangeName log of
              (Inl e, log1) \<Rightarrow> (Returned (formatError e), log1)
            | (Inr result, log1) \<Rightarrow>
                (Returned (formatSuccess message (UpdateData result)), log1))))"
proof -
  let ?m1 = "''Named range ''
      @ (if truthy (opt_str namedRangeId) then ''ID: '' @ the namedRangeId
         else dq @ (case name of None \<Rightarrow> ''undefined'' | Some n \<Rightarrow> n) @ dq)
      @ '' deleted''"
  let ?m2 = "''Named range content replaced with '' @ dq @ take 50 text
      @ (if length text > 50 then ''...'' else []) @ dq"
  have a: "(namedRangeId = None \<or> namedRangeId = Some []) \<and> (name = None \<or> name = Some []) \<longrightarrow>
      googledocs_delete_named_range_handler c documentId namedRangeId name log =
        (Returned \<lparr>result_content = Rejection ''Either namedRangeId or name must be provided'',
                   isError = True\<rparr>, log)"
    unfolding delete_named_range_guard truthy_opt_str by simp
  have b: "(namedRangeId \<noteq> None \<and> namedRangeId \<noteq> Some []) \<or> (name \<noteq> None \<and> name \<noteq> Some []) \<longrightarrow>
      (\<exists>message.
         googledocs_delete_named_range_handler c documentId namedRangeId name log =
           (case deleteNamedRange c documentId namedRangeId name log of
              (Inl e, log1) \<Rightarrow> (Returned (formatError e), log1)
            | (Inr result, log1) \<Rightarrow>
                (Returned (formatSuccess message (UpdateData result)), log1)))"
  proof
    assume "(namedRangeId \<noteq> None \<and> namedRangeId \<noteq> Some []) \<or> (name \<noteq> None \<and> name \<noteq> Some [])"
    hence g: "\<not> (\<not> truthy (opt_str namedRangeId) \<and> \<not> truthy (opt_str name))"
      unfolding truthy_opt_str by blast
    have "googledocs_delete_named_range_handler c documentId namedRangeId name log =
           (case deleteNamedRange c documentId namedRangeId name log of
              (Inl e, log1) \<Rightarrow> (Returned (formatError e), log1)
            | (Inr result, log1) \<Rightarrow>
                (Returned (formatSuccess ?m1 (UpdateData result)), log1))"
      unfolding delete_named_range_guard using g by (rule if_not_P)
    thus "\<exists>message.
         googledocs_delete_named_range_handler c documentId namedRangeId name log =
           (case deleteNamedRange c documentId namedRangeId name log of
              (Inl e, log1) \<Rightarrow> (Returned (formatError e), log1)
            | (Inr result, log1) \<Rightarrow>
                (Returned (formatSuccess message (UpdateData result)), log1))"
      by (rule exI [of _ ?m1])
  qed
  have c: "(namedRangeId = None \<or> namedRangeId = Some []) \<and>
    (namedRangeName = None \<or> namedRangeName = Some []) \<longrightarrow>
      googledocs_replace_named_range_content_handler c documentId text namedRangeId
          namedRangeName log =
        (Returned \<lparr>result_content =
                     Rejection ''Either namedRangeId or namedRangeName must be provided'',
                   isError = True\<rparr>, log)"
    unfolding replace_named_range_content_guard truthy_opt_str by simp
  have d: "(namedRangeId \<noteq> None \<and> namedRangeId \<noteq> Some []) \<or>
    (namedRangeName \<noteq> None \<and> namedRangeName \<noteq> Some []) \<longrightarrow>
      (\<exists>message.
         googledocs_replace_named_range_content_handler c documentId text namedRangeId
             namedRangeName log =
           (case replaceNamedRangeContent c documentId text namedRangeId namedRangeName log of
              (Inl e, log1) \<Rightarrow> (Returned (formatError e), log1)
            | (Inr result, log1) \<Rightarrow>
                (Returned (formatSuccess message (UpdateData result)), log1)))"
  proof
    assume "(namedRangeId \<noteq> None \<and> namedRangeId \<noteq> Some []) \<or>
      (namedRangeName \<noteq> None \<and> namedRangeName \<noteq> Some [])"
    hence g: "\<not> (\<not> truthy (opt_str namedRangeId) \<and> \<not> truthy (opt_str namedRangeName))"
      unfolding truthy_opt_str by blast
    have "googledocs_replace_named_range_content_handler c documentId text namedRangeId
             namedRangeName log =
           (case replaceNamedRangeContent c documentId text namedRangeId namedRangeName log of
              (Inl e, log1) \<Rightarrow> (Returned (formatError e), log1)
            | (Inr result, log1) \<Rightarrow>
                (Returned (formatSuccess ?m2 (UpdateData result)), log1))"
      unfolding replace_named_range_content_guard using g by (rule if_not_P)
    thus "\<exists>message.
         googledocs_replace_named_range_content_handler c documentId text namedRangeId
             namedRangeName log =
           (case replaceNamedRangeContent c documentId text namedRangeId namedRangeName log of
              (Inl e, log1) \<Rightarrow> (Returned (formatError e), log1)
            | (Inr result, log1) \<Rightarrow>
                (Returned (formatSuccess message (UpdateData result)), log1))"
      by (rule exI [of _ ?m2])
  qed
  from a b c d show ?thesis by (intro conjI)
qed

theorem named_range_nonempty_identifier_required_witness:
  "googledocs_delete_named_range_handler example_client ''doc1'' None None [] =
     (Returned \<lparr>result_content = Rejection ''Either namedRangeId or name must be provided'',
                isError = True\<rparr>, []) \<and>
   googledocs_replace_named_range_content_handler example_client ''doc1'' ''text'' None None [] =
     (Returned \<lparr>result_content =
                  Rejection ''Either namedRangeId or namedRangeName must be provided'',
                isError = True\<rparr>, []) \<and>
   snd (googledocs_delete_named_range_handler example_client ''doc1'' None (Some ''intro'') []) =
     snd (deleteNamedRange example_client ''doc1'' None (Some ''intro'') []) \<and>
   length (snd (deleteNamedRange example_client ''doc1'' None (Some ''intro'') [])) = 1"
proof -
  have l: "length (snd (deleteNamedRange example_client ''doc1'' None (Some ''intro'') [])) = 1"
    by (simp add: deleteNamedRange_def batchUpdate_log getAuthHeaders_def example_client_def)
  obtain r log1 where
    d: "deleteNamedRange example_client ''doc1'' None (Some ''intro'') [] = (r, log1)"
    by (cases "deleteNamedRange example_client ''doc1'' None (Some ''intro'') []")
  from d
    named_range_nonempty_identifier_required
      [of None "Some ''intro''" example_client "''doc1''" "[]" None "''text''"]
  have "\<exists>message.
      googledocs_delete_named_range_handler example_client ''doc1'' None (Some ''intro'') [] =
        (case r of
           Inl e \<Rightarrow> (Returned (formatError e), log1)
         | Inr result \<Rightarrow> (Returned (formatSuccess message (UpdateData result)), log1))"
    by simp
  hence s: "snd (googledocs_delete_named_range_handler example_client ''doc1'' None
                   (Some ''intro'') []) = log1"
    by (cases r) auto
  from
    named_range_nonempty_identifier_required
      [of None None example_client "''doc1''" "[]" None "''text''"]
  have "googledocs_delete_named_range_handler example_client ''doc1'' None None [] =
     (Returned \<lparr>result_content = Rejection ''Either namedRangeId or name must be provided'',
                isError = True\<rparr>, []) \<and>
   googledocs_replace_named_range_content_handler example_client ''doc1'' ''text'' None None [] =
     (Returned \<lparr>result_content =
                  Rejection ''Either namedRangeId or namedRangeName must be provided'',
                isError = True\<rparr>, [])"
    by simp
  with s d l show ?thesis by simp
qed

text \<open>
  Claim C9. When no styling argument is given, the handlers of
  \<^verbatim>\<open>googledocs_format_text\<close> and \<^verbatim>\<open>googledocs_format_paragraph\<close> return a success
  result, with the text \<^verbatim>\<open>No formatting changes specified\<close> or
  \<^verbatim>\<open>No paragraph formatting changes specified\<close> and the empty object as data, and the
  requests issued are those issued before: the client is not called.
\<close>

theorem formatting_without_changes_is_local:
  "googledocs_format_text_handler c documentId startIndex endIndex
       None None None None None None log =
     (Returned (formatSuccess ''No formatting changes specified'' EmptyData), log) \<and>
   googledocs_format_paragraph_handler c documentId startIndex endIndex
       None None None None None log =
     (Returned (formatSuccess ''No paragraph formatting changes specified'' EmptyData), log)"
  by (simp add: googledocs_format_text_handler_def googledocs_format_paragraph_handler_def
        format_text_changes_def format_paragraph_changes_def try_catch_def opt_str_def)

theorem formatting_without_changes_is_local_witness:
  "run_handler example_client
       (formatting_tool (googledocs_format_text ''doc1'' 1 5 None None None None None None)) [] =
     (Returned \<lparr>result_content = Success ''No formatting changes specified'' EmptyData,
                isError = False\<rparr>, []) \<and>
   run_handler example_client
       (formatting_tool (googledocs_format_paragraph ''doc1'' 1 5 None None None None None)) [] =
     (Returned \<lparr>result_content = Success ''No paragraph formatting changes specified'' EmptyData,
                isError = False\<rparr>, [])"
  using formatting_without_changes_is_local [of example_client "''doc1''" 1 5 "[]"]
  by (simp add: formatSuccess_def)

section \<open>Validation before the handler\<close>

text \<open>
  Claim C6. A tool input that violates the tool's input schema is refused by the dispatch:
  the caller gets the rejection, no handler runs and the requests issued are those issued
  before. An index below 1 for \<^verbatim>\<open>googledocs_insert_text\<close> is such an input.
\<close>

theorem invalid_input_never_reaches_handler:
  "(\<not> schema_ok is_url call \<longrightarrow> call_tool is_url c call log = (InvalidParams, log)) \<and>
   (index < 1 \<longrightarrow>
      call_tool is_url c (content_tool (googledocs_insert_text documentId text index)) log =
        (InvalidParams, log))"
  by (simp add: call_tool_def)

theorem invalid_input_never_reaches_handler_witness:
  "\<not> schema_ok (\<lambda>u. True) (content_tool (googledocs_insert_text ''doc1'' ''hi'' 0)) \<and>
   call_tool (\<lambda>u. True) example_client
       (content_tool (googledocs_insert_text ''doc1'' ''hi'' 0)) [] = (InvalidParams, []) \<and>
   call_tool (\<lambda>u. True) example_client
       (table_tool (googledocs_insert_table ''doc1'' 0 2 1)) [] = (InvalidParams, [])"
  using
    invalid_input_never_reaches_handler
      [of "\<lambda>u. True" "content_tool (googledocs_insert_text ''doc1'' ''hi'' 0)"
          example_client "[]" 0 "''doc1''" "''hi''"]
    invalid_input_never_reaches_handler
      [of "\<lambda>u. True" "table_tool (googledocs_insert_table ''doc1'' 0 2 1)"
          example_client "[]" 0 "''doc1''" "''hi''"]
  by simp

section \<open>Handlers never throw\<close>





















section \<open>Named range identifiers\<close>



end
